theory Spec2Isabelle
  imports Complex_Main "HOL-Library.Multiset"
begin

section \<open>JavaScript values used by the deck catalogue\<close>

text \<open>
  A JavaScript string is a sequence of UTF-16 code units. Code units are natural
  numbers here, so that the em dash of a type line (8212) and the Unicode white space
  that \<open>trim\<close> and \<open>\s\<close> strip are single elements, as they are for the program.
  \<open>js ''abc''\<close> is the JavaScript string literal \<open>'abc'\<close>.
\<close>

type_synonym jsstring = "nat list"

abbreviation js :: "string \<Rightarrow> jsstring" where
  "js s \<equiv> map of_char s"

datatype error = TypeError | SyntaxError | NetworkError | QuotaExceededError | LookupFailure

text \<open>\<open>x || 0\<close> on a number that may be missing: \<open>undefined\<close>, \<open>null\<close> and \<open>0\<close> give 0.\<close>

definition or0 :: "int option \<Rightarrow> int" where
  "or0 x = (case x of None \<Rightarrow> 0 | Some n \<Rightarrow> n)"

text \<open>
  White space as \<open>String.prototype.trim\<close>, the regular expression class \<open>\s\<close> and
  \<open>parseInt\<close> see it: the WhiteSpace and LineTerminator code points of ECMAScript.
\<close>

definition isWhiteSpace :: "nat \<Rightarrow> bool" where
  "isWhiteSpace c \<longleftrightarrow>
     c = 9 \<or> c = 10 \<or> c = 11 \<or> c = 12 \<or> c = 13 \<or> c = 32 \<or> c = 160 \<or> c = 5760 \<or>
     (8192 \<le> c \<and> c \<le> 8202) \<or> c = 8232 \<or> c = 8233 \<or> c = 8239 \<or> c = 8287 \<or>
     c = 12288 \<or> c = 65279"

text \<open>The characters the regular expression atom \<open>.\<close> refuses.\<close>

definition isLineTerminator :: "nat \<Rightarrow> bool" where
  "isLineTerminator c \<longleftrightarrow> c = 10 \<or> c = 13 \<or> c = 8232 \<or> c = 8233"

definition isDigit :: "nat \<Rightarrow> bool" where
  "isDigit c \<longleftrightarrow> 48 \<le> c \<and> c \<le> 57"

definition trim :: "jsstring \<Rightarrow> jsstring" where
  "trim s = rev (dropWhile isWhiteSpace (rev (dropWhile isWhiteSpace s)))"

text \<open>
  \<open>parseInt(s)\<close> without a radix: leading white space is skipped, a sign is read, a
  prefix \<open>0x\<close> or \<open>0X\<close> selects base 16, and the longest run of digits is the value;
  no digit at all gives \<open>NaN\<close>, which is \<open>None\<close>. The value is an exact integer
  (JavaScript rounds above \<open>2^53\<close>).
\<close>

definition digitValue :: "nat \<Rightarrow> nat \<Rightarrow> nat option" where
  "digitValue radix c =
     (let v = (if 48 \<le> c \<and> c \<le> 57 then c - 48
               else if 97 \<le> c \<and> c \<le> 122 then c - 87
               else if 65 \<le> c \<and> c \<le> 90 then c - 55
               else radix)
      in if v < radix then Some v else None)"

fun digitsValue :: "nat \<Rightarrow> jsstring \<Rightarrow> nat \<Rightarrow> bool \<Rightarrow> nat option" where
  "digitsValue radix [] acc seen = (if seen then Some acc else None)"
| "digitsValue radix (c # cs) acc seen =
     (case digitValue radix c of
        Some v \<Rightarrow> digitsValue radix cs (acc * radix + v) True
      | None \<Rightarrow> (if seen then Some acc else None))"

definition parseInt :: "jsstring \<Rightarrow> int option" where
  "parseInt str =
     (let s = dropWhile isWhiteSpace str;
          neg = (case s of c # _ \<Rightarrow> c = 45 | [] \<Rightarrow> False);
          s1 = (case s of c # cs \<Rightarrow> (if c = 45 \<or> c = 43 then cs else s) | [] \<Rightarrow> s);
          hex = (case s1 of a # b # _ \<Rightarrow> a = 48 \<and> (b = 120 \<or> b = 88) | _ \<Rightarrow> False);
          s2 = (if hex then drop 2 s1 else s1)
      in case digitsValue (if hex then 16 else 10) s2 0 False of
           None \<Rightarrow> None
         | Some n \<Rightarrow> Some (if neg then - int n else int n))"

section \<open>The data model\<close>

text \<open>
  A field that the program reads defensively (\<open>deck.stats?.wins || 0\<close>,
  \<open>!deck.decklist\<close>, \<open>card.cmc !== null && card.cmc !== undefined\<close>) is an option:
  \<open>None\<close> is \<open>undefined\<close> or \<open>null\<close>.
\<close>

record stats =
  wins :: "int option"
  losses :: "int option"
  mulligans :: "int option"
  totalGames :: "int option"

record card =
  card_name :: jsstring
  quantity :: int
  imageUrl :: "jsstring option"
  manaCost :: "jsstring option"
  cmc :: "rat option"
  card_type :: "jsstring option"
  rarity :: jsstring

record commander =
  commander_name :: jsstring
  commander_imageUrl :: "jsstring option"

record deck =
  deck_id :: jsstring
  deck_name :: jsstring
  deck_commander :: "commander option"
  decklist :: "card list option"
  deck_stats :: "stats option"
  deck_notes :: "jsstring option"
  createdAt :: jsstring

section \<open>The deck detail view\<close>

text \<open>
  The state the handlers of \<open>DeckDetail\<close> read and write: the component's state
  variables and the collection under the key \<open>mtgDecks\<close> of \<open>localStorage\<close>. The
  persisted collection is the array of decks its text parses to; \<open>None\<close> is a
  missing (or empty) item, the case \<open>if (savedDecks)\<close> skips. The handlers below
  belong to controls that are rendered only once a deck is loaded, so \<open>dd_deck\<close> is
  a deck. The deck id of the URL is the argument \<open>url_id\<close>.
\<close>

record statsInput =
  in_wins :: int
  in_losses :: int
  in_mulligans :: int

record browser =
  mtgDecks :: "deck list option"

record detail_state = browser +
  dd_deck :: deck
  showStatsModal :: bool
  dd_statsInput :: statsInput
  dd_notes :: jsstring
  sortBy :: jsstring

definition saveDeck :: "jsstring \<Rightarrow> deck \<Rightarrow> detail_state \<Rightarrow> detail_state" where
  "saveDeck url_id updatedDeck st =
     (case mtgDecks st of
        None \<Rightarrow> st
      | Some decks \<Rightarrow>
          st\<lparr>mtgDecks := Some (map (\<lambda>d. if deck_id d = url_id then updatedDeck else d) decks),
             dd_deck := updatedDeck\<rparr>)"

text \<open>The three \<open>onChange\<close> handlers of the edit form: \<open>parseInt(e.target.value) || 0\<close>.\<close>

definition onChange_wins :: "jsstring \<Rightarrow> detail_state \<Rightarrow> detail_state" where
  "onChange_wins v st = st\<lparr>dd_statsInput := (dd_statsInput st)\<lparr>in_wins := or0 (parseInt v)\<rparr>\<rparr>"

definition onChange_losses :: "jsstring \<Rightarrow> detail_state \<Rightarrow> detail_state" where
  "onChange_losses v st = st\<lparr>dd_statsInput := (dd_statsInput st)\<lparr>in_losses := or0 (parseInt v)\<rparr>\<rparr>"

definition onChange_mulligans :: "jsstring \<Rightarrow> detail_state \<Rightarrow> detail_state" where
  "onChange_mulligans v st =
     st\<lparr>dd_statsInput := (dd_statsInput st)\<lparr>in_mulligans := or0 (parseInt v)\<rparr>\<rparr>"

definition handleUpdateStats :: "jsstring \<Rightarrow> detail_state \<Rightarrow> detail_state" where
  "handleUpdateStats url_id st =
     (let si = dd_statsInput st;
          updatedDeck = (dd_deck st)
            \<lparr>deck_stats := Some \<lparr>wins = Some (in_wins si), losses = Some (in_losses si),
                                 mulligans = Some (in_mulligans si),
                                 totalGames = Some (or0 (Some (in_wins si)) + or0 (Some (in_losses si)))\<rparr>,
             deck_notes := Some (dd_notes st)\<rparr>
      in (saveDeck url_id updatedDeck st)\<lparr>showStatsModal := False\<rparr>)"

text \<open>
  The quick-adjust buttons call \<open>handleQuickStatUpdate\<close> with one of three literals
  and a delta of 1 or -1. Reading \<open>deck.stats[stat]\<close> of a deck without stats is a
  TypeError.
\<close>

datatype stat_key = Wins | Losses | Mulligans

definition handleQuickStatUpdate ::
  "jsstring \<Rightarrow> stat_key \<Rightarrow> int \<Rightarrow> detail_state \<Rightarrow> error + detail_state" where
  "handleQuickStatUpdate url_id stat delta st =
     (case deck_stats (dd_deck st) of
        None \<Rightarrow> Inl TypeError
      | Some s \<Rightarrow>
          let s1 = (case stat of
                      Wins \<Rightarrow> s\<lparr>wins := Some (max 0 (or0 (wins s) + delta))\<rparr>
                    | Losses \<Rightarrow> s\<lparr>losses := Some (max 0 (or0 (losses s) + delta))\<rparr>
                    | Mulligans \<Rightarrow> s\<lparr>mulligans := Some (max 0 (or0 (mulligans s) + delta))\<rparr>);
              updatedStats = s1
                \<lparr>totalGames := Some
                   (if stat = Wins \<or> stat = Losses
                    then max 0 (or0 (wins s) + (if stat = Wins then delta else 0) +
                                or0 (losses s) + (if stat = Losses then delta else 0))
                    else or0 (totalGames s))\<rparr>;
              updatedDeck = (dd_deck st)\<lparr>deck_stats := Some updatedStats\<rparr>
          in Inr (saveDeck url_id updatedDeck st))"

text \<open>A sequence of clicks on the quick-adjust buttons, each on the state the last one left.\<close>

fun quick_updates ::
  "jsstring \<Rightarrow> (stat_key \<times> int) list \<Rightarrow> detail_state \<Rightarrow> error + detail_state" where
  "quick_updates url_id [] st = Inr st"
| "quick_updates url_id ((stat, delta) # clicks) st =
     (case handleQuickStatUpdate url_id stat delta st of
        Inl e \<Rightarrow> Inl e
      | Inr st' \<Rightarrow> quick_updates url_id clicks st')"

text \<open>
  The win rate. The quotient is a binary floating-point number that \<open>toFixed(1)\<close>
  formats; the model keeps the exact quotient and leaves the formatting symbolic. A
  division by zero would give \<open>Infinity\<close> or \<open>NaN\<close>, which is \<open>NonFinite\<close>.
\<close>

datatype jsnumber = Finite rat | NonFinite

definition js_divide :: "int \<Rightarrow> int \<Rightarrow> jsnumber" where
  "js_divide a b = (if b = 0 then NonFinite else Finite (of_int a / of_int b))"

definition js_times :: "jsnumber \<Rightarrow> rat \<Rightarrow> jsnumber" where
  "js_times x k = (case x of Finite q \<Rightarrow> Finite (q * k) | NonFinite \<Rightarrow> NonFinite)"

datatype winrate = Zero | ToFixed1 jsnumber

definition winRate :: "deck \<Rightarrow> winrate" where
  "winRate d =
     (case deck_stats d of
        None \<Rightarrow> Zero
      | Some s \<Rightarrow>
          (case totalGames s of
             None \<Rightarrow> Zero
           | Some t \<Rightarrow>
               if t > 0 then ToFixed1 (js_times (js_divide (or0 (wins s)) t) 100) else Zero))"

section \<open>Mana value and primary type\<close>

text \<open>
  The matches of the global regular expression \<open>/\{(\d+)\}/g\<close>, from left to right: an
  opening brace, one or more digits, a closing brace. After a match the search goes on
  behind it, otherwise one code unit further.
\<close>

function brace_matches :: "jsstring \<Rightarrow> jsstring list" where
  "brace_matches [] = []"
| "brace_matches (c # cs) =
     (if c = 123 \<and> takeWhile isDigit cs \<noteq> [] \<and>
         (case dropWhile isDigit cs of x # _ \<Rightarrow> x = 125 | [] \<Rightarrow> False)
      then ([123] @ takeWhile isDigit cs @ [125]) # brace_matches (tl (dropWhile isDigit cs))
      else brace_matches cs)"
  by pat_completeness auto
termination
proof (relation "measure length")
  fix c :: nat and cs :: jsstring
  have "length (tl (dropWhile isDigit cs)) \<le> length cs"
    using length_dropWhile_le [of isDigit cs] by simp
  then show "(tl (dropWhile isDigit cs), c # cs) \<in> measure length"
    by simp
qed simp_all

definition getManaValue :: "card \<Rightarrow> rat" where
  "getManaValue c =
     (case cmc c of
        Some v \<Rightarrow> v
      | None \<Rightarrow>
          (case manaCost c of
             None \<Rightarrow> 0
           | Some m \<Rightarrow>
               if m = [] then 0
               else let matches = brace_matches m
                    in if matches = [] then 0
                       else of_int (foldl (\<lambda>sum match.
                              sum + (case parseInt (filter (\<lambda>x. x \<noteq> 123 \<and> x \<noteq> 125) match) of
                                       None \<Rightarrow> 0 | Some num \<Rightarrow> num)) 0 matches)))"

text \<open>\<open>s.split(sep)\<close> for a separator of one code unit.\<close>

fun split_on :: "nat \<Rightarrow> jsstring \<Rightarrow> jsstring list" where
  "split_on sep [] = [[]]"
| "split_on sep (c # cs) =
     (if c = sep then [] # split_on sep cs
      else (case split_on sep cs of
              l # ls \<Rightarrow> (c # l) # ls
            | [] \<Rightarrow> [[c]]))"

definition getCardType :: "jsstring option \<Rightarrow> jsstring" where
  "getCardType typeLine =
     (case typeLine of
        None \<Rightarrow> js ''Unknown''
      | Some t \<Rightarrow>
          if t = [] then js ''Unknown''
          else let mainType = trim (case split_on 8212 t of p # _ \<Rightarrow> p | [] \<Rightarrow> [])
               in if mainType = [] then js ''Unknown'' else mainType)"

section \<open>The decklist parser\<close>

text \<open>
  \<open>toLowerCase\<close> as the parser uses it, to look for two ASCII words in a line: the
  letters of ASCII and Latin-1 are folded and a code unit beyond Latin-1 is left as
  it is. For that search this is exact, since no letter beyond Latin-1 folds to a
  letter of \<open>commander\<close> or \<open>sideboard\<close> that the next letter of the word follows.
\<close>

definition toLowerCase :: "jsstring \<Rightarrow> jsstring" where
  "toLowerCase s =
     map (\<lambda>c. if (65 \<le> c \<and> c \<le> 90) \<or> (192 \<le> c \<and> c \<le> 222 \<and> c \<noteq> 215) then c + 32 else c) s"

fun startsWith :: "jsstring \<Rightarrow> jsstring \<Rightarrow> bool" where
  "startsWith s [] = True"
| "startsWith [] (p # ps) = False"
| "startsWith (c # cs) (p # ps) = (c = p \<and> startsWith cs ps)"

fun includes_str :: "jsstring \<Rightarrow> jsstring \<Rightarrow> bool" where
  "includes_str [] needle = (needle = [])"
| "includes_str (c # cs) needle = (startsWith (c # cs) needle \<or> includes_str cs needle)"

text \<open>
  The line pattern \<open>/^(\d+)\s*x?\s*-?\s*(.+)$/\<close>. Each piece lists what is left of the
  input after it, in the order in which a backtracking matcher tries: a greedy
  repetition gives up one code unit at a time, an optional character is first taken
  and then left. The first way through all pieces is the match; it yields the two
  captured groups.
\<close>

fun greedy_capture :: "(nat \<Rightarrow> bool) \<Rightarrow> jsstring \<Rightarrow> (jsstring \<times> jsstring) list" where
  "greedy_capture p [] = [([], [])]"
| "greedy_capture p (c # cs) =
     (if p c then map (\<lambda>(a, r). (c # a, r)) (greedy_capture p cs) @ [([], c # cs)]
      else [([], c # cs)])"

definition greedy :: "(nat \<Rightarrow> bool) \<Rightarrow> jsstring \<Rightarrow> jsstring list" where
  "greedy p s = map snd (greedy_capture p s)"

definition optional :: "nat \<Rightarrow> jsstring \<Rightarrow> jsstring list" where
  "optional ch s = (case s of c # cs \<Rightarrow> (if c = ch then [cs, s] else [s]) | [] \<Rightarrow> [s])"

definition line_matches :: "jsstring \<Rightarrow> (jsstring \<times> jsstring) list" where
  "line_matches line =
     [(d, r6).
        (d, r1) \<leftarrow> greedy_capture isDigit line, d \<noteq> [],
        r2 \<leftarrow> greedy isWhiteSpace r1,
        r3 \<leftarrow> optional 120 r2,
        r4 \<leftarrow> greedy isWhiteSpace r3,
        r5 \<leftarrow> optional 45 r4,
        r6 \<leftarrow> greedy isWhiteSpace r5,
        r6 \<noteq> [] \<and> filter isLineTerminator r6 = []]"

definition line_match :: "jsstring \<Rightarrow> (jsstring \<times> jsstring) option" where
  "line_match line = (case line_matches line of [] \<Rightarrow> None | m # _ \<Rightarrow> Some m)"

record parsedLine =
  pl_name :: jsstring
  pl_quantity :: int

text \<open>
  The body of the loop over the lines; \<open>cards\<close> is the array the loop pushes to. A
  quantity that is \<open>NaN\<close> fails the test \<open>quantity > 0\<close>.
\<close>

definition parse_line :: "jsstring \<Rightarrow> parsedLine list \<Rightarrow> parsedLine list" where
  "parse_line line cards =
     (if startsWith line (js ''//'') \<or> startsWith line (js ''#'') \<or>
         includes_str (toLowerCase line) (js ''commander'') \<or>
         includes_str (toLowerCase line) (js ''sideboard'')
      then cards
      else (case line_match line of
              None \<Rightarrow> cards
            | Some (m1, m2) \<Rightarrow>
                let cardName = trim m2
                in (case parseInt m1 of
                      None \<Rightarrow> cards
                    | Some qty \<Rightarrow>
                        if cardName \<noteq> [] \<and> qty > 0
                        then cards @ [\<lparr>pl_name = cardName, pl_quantity = qty\<rparr>]
                        else cards)))"

fun parse_lines :: "jsstring list \<Rightarrow> parsedLine list \<Rightarrow> parsedLine list" where
  "parse_lines [] cards = cards"
| "parse_lines (line # lines) cards = parse_lines lines (parse_line line cards)"

definition parseDecklist :: "jsstring \<Rightarrow> parsedLine list" where
  "parseDecklist text =
     parse_lines (filter (\<lambda>line. length line > 0) (map trim (split_on 10 text))) []"

section \<open>The deck list view\<close>

text \<open>
  The state of \<open>DeckList\<close>: its state variables, the persisted collection, and what
  the handlers show to the user (the alerts, in order, and the route they navigate
  to).
\<close>

datatype alert = PleasePasteDecklist | PleaseEnterDeckName | NoValidCardsFound | FailedToImport

record list_state = browser +
  decks :: "deck list"
  showImportModal :: bool
  decklistText :: jsstring
  deckName :: jsstring
  commanderName :: jsstring
  importing :: bool
  alerts :: "alert list"
  location :: "jsstring option"

text \<open>
  \<open>saveDecks\<close> first sets the state variable and then writes to \<open>localStorage\<close>.
  \<open>setItem\<close> throws when the storage refuses the value (QuotaExceededError);
  \<open>setItem_throws\<close> says for which values it does. The result is the exception, if
  there is one, and the state, in which the collection in memory is the new one in
  either case.
\<close>

definition saveDecks ::
  "(deck list \<Rightarrow> bool) \<Rightarrow> deck list \<Rightarrow> list_state \<Rightarrow> error option \<times> list_state" where
  "saveDecks setItem_throws newDecks st =
     (let st1 = st\<lparr>decks := newDecks\<rparr>
      in if setItem_throws newDecks then (Some QuotaExceededError, st1)
         else (None, st1\<lparr>mtgDecks := Some newDecks\<rparr>))"

text \<open>
  \<open>confirmed\<close> is the answer of \<open>window.confirm\<close>. The handler is not inside a
  \<open>try\<close> block; it is taken with a storage that accepts the write.
\<close>

definition handleDeleteDeck :: "bool \<Rightarrow> jsstring \<Rightarrow> list_state \<Rightarrow> list_state" where
  "handleDeleteDeck confirmed deckId st =
     (if confirmed
      then snd (saveDecks (\<lambda>_. False) (filter (\<lambda>deck. deck_id deck \<noteq> deckId) (decks st)) st)
      else st)"

section \<open>Importing a deck\<close>

text \<open>
  What the import reads of a card object of the lookup service: \<open>image_uris.normal\<close>,
  \<open>card_faces[0].image_uris.normal\<close>, \<open>mana_cost\<close>, \<open>cmc\<close>, \<open>card_faces[0].cmc\<close>,
  \<open>type_line\<close> and \<open>rarity\<close>, each of which may be missing.
\<close>

record scryfall =
  image_uris_normal :: "jsstring option"
  face_image_uris_normal :: "jsstring option"
  mana_cost :: "jsstring option"
  sf_cmc :: "rat option"
  face_cmc :: "rat option"
  type_line :: "jsstring option"
  sf_rarity :: "jsstring option"

text \<open>\<open>a || b\<close> on strings that may be missing: the empty string is falsy too.\<close>

definition js_or :: "jsstring option \<Rightarrow> jsstring option \<Rightarrow> jsstring option" where
  "js_or a b = (case a of Some (c # cs) \<Rightarrow> a | _ \<Rightarrow> b)"

text \<open>\<open>scryfallData?.field\<close>.\<close>

definition opt_field :: "(scryfall \<Rightarrow> 'a option) \<Rightarrow> scryfall option \<Rightarrow> 'a option" where
  "opt_field f scryfallData = (case scryfallData of None \<Rightarrow> None | Some d \<Rightarrow> f d)"

definition card_entry :: "parsedLine \<Rightarrow> scryfall option \<Rightarrow> card" where
  "card_entry parsed scryfallData =
     \<lparr>card_name = pl_name parsed,
      quantity = pl_quantity parsed,
      imageUrl = js_or (js_or (opt_field image_uris_normal scryfallData)
                              (opt_field face_image_uris_normal scryfallData)) None,
      manaCost = js_or (opt_field mana_cost scryfallData) (Some []),
      cmc = (case opt_field sf_cmc scryfallData of
               Some v \<Rightarrow> Some v
             | None \<Rightarrow> opt_field face_cmc scryfallData),
      card_type = js_or (opt_field type_line scryfallData) (Some []),
      rarity = (case opt_field sf_rarity scryfallData of Some (c # cs) \<Rightarrow> c # cs | _ \<Rightarrow> [])\<rparr>"

text \<open>
  The card service answers two requests, both keyed by the name of a card: the lookup
  of the exact name and the free-text search. \<open>fetch\<close> is the transport and a
  parameter. The network is a state of any type \<open>'n\<close> that every request passes
  on, so that the answer may depend on what was asked before; a request returns a
  response or throws. Of a response the program reads \<open>ok\<close> and the parsed body:
  \<open>response.json()\<close> throws on a body that is not JSON, \<open>None\<close> is a body that is
  \<open>null\<close> (or falsy), and of an object the program reads the card fields and the
  array \<open>data\<close>.
\<close>

datatype query = Named jsstring | Search jsstring

record body =
  as_card :: scryfall
  data :: "scryfall option list option"

record response =
  ok :: bool
  json :: "error + body option"

text \<open>
  \<open>fetchScryfallCard\<close>: the whole body is inside \<open>try\<close>, and the \<open>catch\<close> returns
  \<open>null\<close>, so the function returns a card object or \<open>null\<close> and never throws.
\<close>

definition fetchScryfallCard ::
  "(query \<Rightarrow> 'n \<Rightarrow> (error + response) \<times> 'n) \<Rightarrow> jsstring \<Rightarrow> 'n \<Rightarrow> scryfall option \<times> 'n" where
  "fetchScryfallCard fetch cardName net =
     (case fetch (Named cardName) net of
        (Inl e, net1) \<Rightarrow> (None, net1)
      | (Inr response, net1) \<Rightarrow>
          if \<not> ok response
          then (case fetch (Search cardName) net1 of
                  (Inl e, net2) \<Rightarrow> (None, net2)
                | (Inr response2, net2) \<Rightarrow>
                    if \<not> ok response2 then (None, net2)
                    else (case json response2 of
                            Inl e \<Rightarrow> (None, net2)
                          | Inr None \<Rightarrow> (None, net2)
                          | Inr (Some searchData) \<Rightarrow>
                              (case data searchData of
                                 Some (found # others) \<Rightarrow> (found, net2)
                               | _ \<Rightarrow> (None, net2))))
          else (case json response of
                  Inl e \<Rightarrow> (None, net1)
                | Inr None \<Rightarrow> (None, net1)
                | Inr (Some d) \<Rightarrow> (Some (as_card d), net1)))"

text \<open>
  The loop over the parsed cards. The lookup step is a parameter here, so that the
  loop is also defined for a lookup that throws (\<open>Inl\<close>), which ends the loop; the
  program's own lookup is \<open>fetchScryfallCard\<close> (\<open>lookup_of\<close> below). \<open>lowerCase\<close>
  is \<open>String.prototype.toLowerCase\<close> of the platform on arbitrary names, a
  parameter too. \<open>entries\<close> (the local array \<open>decklist\<close>) and \<open>commanderData\<close> are
  the two variables the loop updates. The pause of 100 ms after each lookup changes
  nothing and is not modelled.
\<close>

fun import_cards ::
  "(jsstring \<Rightarrow> 'n \<Rightarrow> (error + scryfall option) \<times> 'n) \<Rightarrow> (jsstring \<Rightarrow> jsstring) \<Rightarrow> jsstring \<Rightarrow>
   parsedLine list \<Rightarrow> card list \<Rightarrow> scryfall option \<Rightarrow> 'n \<Rightarrow>
   (error + (card list \<times> scryfall option)) \<times> 'n" where
  "import_cards lookup lowerCase commanderToFind [] entries commanderData net =
     (Inr (entries, commanderData), net)"
| "import_cards lookup lowerCase commanderToFind (parsed # rest) entries commanderData net =
     (case lookup (pl_name parsed) net of
        (Inl e, net1) \<Rightarrow> (Inl e, net1)
      | (Inr scryfallData, net1) \<Rightarrow>
          import_cards lookup lowerCase commanderToFind rest
            (entries @ [card_entry parsed scryfallData])
            (if lowerCase (pl_name parsed) = lowerCase commanderToFind \<and> commanderData = None
             then scryfallData else commanderData)
            net1)"

text \<open>
  The deck object of step 4. \<open>now\<close> is \<open>Date.now().toString()\<close>, \<open>timestamp\<close> is
  \<open>new Date().toISOString()\<close>, \<open>given\<close> is the trimmed commander name of the form
  and \<open>first\<close> the first parsed line.
\<close>

definition new_deck ::
  "jsstring \<Rightarrow> jsstring \<Rightarrow> jsstring \<Rightarrow> jsstring \<Rightarrow> parsedLine \<Rightarrow> card list \<Rightarrow>
   scryfall option \<Rightarrow> deck" where
  "new_deck now timestamp name given first cards commanderData =
     \<lparr>deck_id = now,
      deck_name = name,
      deck_commander =
        (if commanderData \<noteq> None
         then Some \<lparr>commander_name = (if given \<noteq> [] then given else pl_name first),
                    commander_imageUrl =
                      js_or (js_or (opt_field image_uris_normal commanderData)
                                   (opt_field face_image_uris_normal commanderData)) None\<rparr>
         else if given \<noteq> [] then Some \<lparr>commander_name = given, commander_imageUrl = None\<rparr>
         else None),
      decklist = Some cards,
      deck_stats = Some \<lparr>wins = Some 0, losses = Some 0, mulligans = Some 0,
                          totalGames = Some 0\<rparr>,
      deck_notes = Some [],
      createdAt = timestamp\<rparr>"

text \<open>
  The body of the \<open>try\<close> block, run on the state in which \<open>importing\<close> is already
  set. The result is the exception that leaves the block, if there is one, and the
  state at that moment. The calls that can throw are the lookups (when the lookup
  step throws) and \<open>setItem\<close> inside \<open>saveDecks\<close>; the state setters and \<open>navigate\<close>
  do not throw.
\<close>

definition import_body ::
  "(jsstring \<Rightarrow> 'n \<Rightarrow> (error + scryfall option) \<times> 'n) \<Rightarrow> (jsstring \<Rightarrow> jsstring) \<Rightarrow>
   (deck list \<Rightarrow> bool) \<Rightarrow> jsstring \<Rightarrow> jsstring \<Rightarrow> 'n \<Rightarrow> list_state \<Rightarrow>
   error option \<times> list_state" where
  "import_body lookup lowerCase setItem_throws now timestamp net st =
     (case parseDecklist (decklistText st) of
        [] \<Rightarrow> (None, st\<lparr>alerts := alerts st @ [NoValidCardsFound], importing := False\<rparr>)
      | first # others \<Rightarrow>
          let parsedCards = first # others;
              given = trim (commanderName st);
              commanderToFind = (if given \<noteq> [] then given else pl_name first)
          in case import_cards lookup lowerCase commanderToFind parsedCards [] None net of
               (Inl e, net1) \<Rightarrow> (Some e, st)
             | (Inr (cards, found), net1) \<Rightarrow>
                 (case (if given \<noteq> [] \<and> found = None then lookup given net1
                        else (Inr found, net1)) of
                    (Inl e, net2) \<Rightarrow> (Some e, st)
                  | (Inr commanderData, net2) \<Rightarrow>
                      let newDeck = new_deck now timestamp (trim (deckName st)) given first
                                      cards commanderData
                      in (case saveDecks setItem_throws (decks st @ [newDeck]) st of
                            (Some e, st1) \<Rightarrow> (Some e, st1)
                          | (None, st1) \<Rightarrow>
                              (None, st1\<lparr>showImportModal := False, decklistText := [],
                                         deckName := [], commanderName := [],
                                         location := Some (js ''/deck/'' @ deck_id newDeck)\<rparr>))))"

definition handleImport_with ::
  "(jsstring \<Rightarrow> 'n \<Rightarrow> (error + scryfall option) \<times> 'n) \<Rightarrow> (jsstring \<Rightarrow> jsstring) \<Rightarrow>
   (deck list \<Rightarrow> bool) \<Rightarrow> jsstring \<Rightarrow> jsstring \<Rightarrow> 'n \<Rightarrow> list_state \<Rightarrow> list_state" where
  "handleImport_with lookup lowerCase setItem_throws now timestamp net st =
     (if trim (decklistText st) = [] then st\<lparr>alerts := alerts st @ [PleasePasteDecklist]\<rparr>
      else if trim (deckName st) = [] then st\<lparr>alerts := alerts st @ [PleaseEnterDeckName]\<rparr>
      else let st1 = st\<lparr>importing := True\<rparr>
           in (case import_body lookup lowerCase setItem_throws now timestamp net st1 of
                 (Some e, st2) \<Rightarrow> st2\<lparr>alerts := alerts st2 @ [FailedToImport]\<rparr>
               | (None, st2) \<Rightarrow> st2)\<lparr>importing := False\<rparr>)"

text \<open>The lookup step of the program, and \<open>handleImport\<close> as the program has it.\<close>

definition lookup_of ::
  "(query \<Rightarrow> 'n \<Rightarrow> (error + response) \<times> 'n) \<Rightarrow> jsstring \<Rightarrow> 'n \<Rightarrow> (error + scryfall option) \<times> 'n" where
  "lookup_of fetch cardName net =
     (case fetchScryfallCard fetch cardName net of (scryfallData, net1) \<Rightarrow> (Inr scryfallData, net1))"

definition handleImport ::
  "(query \<Rightarrow> 'n \<Rightarrow> (error + response) \<times> 'n) \<Rightarrow> (jsstring \<Rightarrow> jsstring) \<Rightarrow>
   (deck list \<Rightarrow> bool) \<Rightarrow> jsstring \<Rightarrow> jsstring \<Rightarrow> 'n \<Rightarrow> list_state \<Rightarrow> list_state" where
  "handleImport fetch lowerCase setItem_throws now timestamp net st =
     handleImport_with (lookup_of fetch) lowerCase setItem_throws now timestamp net st"

section \<open>Sorting the decklist\<close>

text \<open>
  The three comparators of \<open>getSortedDecklist\<close>. \<open>String.prototype.localeCompare\<close>
  belongs to the platform and is a parameter: a function from two strings to a
  negative number, zero or a positive number.
\<close>

definition compare_name :: "(jsstring \<Rightarrow> jsstring \<Rightarrow> int) \<Rightarrow> card \<Rightarrow> card \<Rightarrow> rat" where
  "compare_name localeCompare a b = of_int (localeCompare (card_name a) (card_name b))"

definition compare_mana :: "(jsstring \<Rightarrow> jsstring \<Rightarrow> int) \<Rightarrow> card \<Rightarrow> card \<Rightarrow> rat" where
  "compare_mana localeCompare a b =
     (let manaA = getManaValue a; manaB = getManaValue b
      in if manaA \<noteq> manaB then manaA - manaB
         else of_int (localeCompare (card_name a) (card_name b)))"

definition compare_type :: "(jsstring \<Rightarrow> jsstring \<Rightarrow> int) \<Rightarrow> card \<Rightarrow> card \<Rightarrow> rat" where
  "compare_type localeCompare a b =
     (let typeA = getCardType (card_type a); typeB = getCardType (card_type b)
      in if typeA \<noteq> typeB then of_int (localeCompare typeA typeB)
         else of_int (localeCompare (card_name a) (card_name b)))"

text \<open>
  \<open>Array.prototype.sort\<close> with a comparator is stable, and with a consistent
  comparator its result is the ascending arrangement; which algorithm computes it is
  left to the engine. The model inserts each element, from the last to the first, in
  front of the first element that does not come before it, which keeps elements that
  compare equal in their order.
\<close>

fun insert_sorted :: "('a \<Rightarrow> 'a \<Rightarrow> rat) \<Rightarrow> 'a \<Rightarrow> 'a list \<Rightarrow> 'a list" where
  "insert_sorted cmp x [] = [x]"
| "insert_sorted cmp x (y # ys) =
     (if cmp x y \<le> 0 then x # y # ys else y # insert_sorted cmp x ys)"

fun Array_sort :: "('a \<Rightarrow> 'a \<Rightarrow> rat) \<Rightarrow> 'a list \<Rightarrow> 'a list" where
  "Array_sort cmp [] = []"
| "Array_sort cmp (x # xs) = insert_sorted cmp x (Array_sort cmp xs)"

text \<open>The \<open>switch\<close> over the sort key, applied to the content of the copied array.\<close>

definition sort_cards ::
  "(jsstring \<Rightarrow> jsstring \<Rightarrow> int) \<Rightarrow> jsstring \<Rightarrow> card list \<Rightarrow> card list" where
  "sort_cards localeCompare key copy =
     (if key = js ''name'' then Array_sort (compare_name localeCompare) copy
      else if key = js ''mana'' then Array_sort (compare_mana localeCompare) copy
      else if key = js ''type'' then Array_sort (compare_type localeCompare) copy
      else copy)"

text \<open>
  \<open>sort\<close> works in place, so whether the stored decklist keeps its order depends on
  which array is sorted. Arrays live in a heap, a list of array contents indexed by
  address; a new array gets the next address. \<open>deck_decklist\<close> is the reference held
  by \<open>deck.decklist\<close> (\<open>None\<close> when the deck has no decklist), which points to an
  allocated array. \<open>getSortedDecklist\<close> allocates the copy \<open>[...deck.decklist]\<close>,
  sorts that array and returns its address.
\<close>

type_synonym heap = "card list list"

definition getSortedDecklist ::
  "(jsstring \<Rightarrow> jsstring \<Rightarrow> int) \<Rightarrow> jsstring \<Rightarrow> nat option \<Rightarrow> heap \<Rightarrow> nat \<times> heap" where
  "getSortedDecklist localeCompare key deck_decklist h =
     (case deck_decklist of
        None \<Rightarrow> (length h, h @ [[]])
      | Some r \<Rightarrow>
          let copy = length h;
              h1 = h @ [h ! r]
          in (copy, h1[copy := sort_cards localeCompare key (h1 ! copy)]))"

text \<open>
  What ECMA-262 requires of \<open>localeCompare\<close>: it is a consistent comparator, that
  is, it answers 0 for a string and itself, its sign flips when the arguments are
  exchanged, and it is transitive. The standard also requires the answer 0 for two
  different strings that are canonically equivalent, so 0 does not say that the
  strings are the same.
\<close>

definition consistent_comparator :: "(jsstring \<Rightarrow> jsstring \<Rightarrow> int) \<Rightarrow> bool" where
  "consistent_comparator lc \<longleftrightarrow>
     (\<forall>a. lc a a = 0) \<and>
     (\<forall>a b. lc a b < 0 \<longleftrightarrow> 0 < lc b a) \<and>
     (\<forall>a b c. lc a b \<le> 0 \<and> lc b c \<le> 0 \<longrightarrow> lc a c \<le> 0)"

definition total_preorder :: "('a \<Rightarrow> 'a \<Rightarrow> rat) \<Rightarrow> bool" where
  "total_preorder cmp \<longleftrightarrow>
     (\<forall>a b. cmp a b \<le> 0 \<or> cmp b a \<le> 0) \<and>
     (\<forall>a b c. cmp a b \<le> 0 \<and> cmp b c \<le> 0 \<longrightarrow> cmp a c \<le> 0)"

text \<open>
  A comparison for the examples. It orders strings by the code units of their
  canonical decompositions, where the accented letters of Latin-1 are decomposed into
  the base letter and the combining mark (e with acute, 233, into \<open>e\<close> and 769). It is a
  consistent comparator, and it answers 0 for a precomposed letter and its
  decomposition, as every \<open>localeCompare\<close> has to.
\<close>

fun codeunit_compare :: "jsstring \<Rightarrow> jsstring \<Rightarrow> int" where
  "codeunit_compare [] [] = 0"
| "codeunit_compare [] (y # ys) = - 1"
| "codeunit_compare (x # xs) [] = 1"
| "codeunit_compare (x # xs) (y # ys) =
     (if x < y then - 1 else if y < x then 1 else codeunit_compare xs ys)"

text \<open>
  Base letter and combining mark of the capital letters 192 to 223, \<open>(0, 0)\<close> where
  there is no decomposition; the small letters 224 to 254 follow the same pattern.
\<close>

definition latin1_decompositions :: "(nat \<times> nat) list" where
  "latin1_decompositions =
     [(65, 768), (65, 769), (65, 770), (65, 771), (65, 776), (65, 778), (0, 0), (67, 807),
      (69, 768), (69, 769), (69, 770), (69, 776), (73, 768), (73, 769), (73, 770), (73, 776),
      (0, 0), (78, 771), (79, 768), (79, 769), (79, 770), (79, 771), (79, 776), (0, 0),
      (0, 0), (85, 768), (85, 769), (85, 770), (85, 776), (89, 769), (0, 0), (0, 0)]"

definition decompose :: "nat \<Rightarrow> jsstring" where
  "decompose c =
     (if c = 255 then [121, 776]
      else if 192 \<le> c \<and> c < 255 then
        (case latin1_decompositions ! ((c - 192) mod 32) of
           (base, mark) \<Rightarrow>
             if mark = 0 then [c] else [if c < 224 then base else base + 32, mark])
      else [c])"

definition nfd_compare :: "jsstring \<Rightarrow> jsstring \<Rightarrow> int" where
  "nfd_compare a b = codeunit_compare (concat (map decompose a)) (concat (map decompose b))"

section \<open>Loading the persisted collection\<close>

text \<open>
  The values of JSON. A number is kept as its literal: its value as a binary
  floating-point number plays no part below.
\<close>

datatype json =
  JNull | JBool bool | JNumber jsstring | JString jsstring
| JArray "json list" | JObject "(jsstring \<times> json) list"

text \<open>
  \<open>JSON.parse\<close> belongs to the platform; this is its grammar (ECMA-404) as an
  automaton in two layers. The first layer reads the code units into tokens. A run of
  letters, digits, signs and dots is one word, which has to be \<open>null\<close>, \<open>true\<close>,
  \<open>false\<close> or a number; a string is decoded as it is read.
\<close>

datatype token = LBrace | RBrace | LBracket | RBracket | Colon | Comma | Str jsstring | Atom json

definition isJSONWhiteSpace :: "nat \<Rightarrow> bool" where
  "isJSONWhiteSpace c \<longleftrightarrow> c = 9 \<or> c = 10 \<or> c = 13 \<or> c = 32"

definition isWordChar :: "nat \<Rightarrow> bool" where
  "isWordChar c \<longleftrightarrow>
     isDigit c \<or> (97 \<le> c \<and> c \<le> 122) \<or> (65 \<le> c \<and> c \<le> 90) \<or> c = 43 \<or> c = 45 \<or> c = 46"

definition digits1 :: "jsstring \<Rightarrow> jsstring option" where
  "digits1 s = (if takeWhile isDigit s = [] then None else Some (dropWhile isDigit s))"

definition valid_number :: "jsstring \<Rightarrow> bool" where
  "valid_number w =
     (let s1 = (case w of c # cs \<Rightarrow> (if c = 45 then cs else w) | [] \<Rightarrow> w);
          int_part = (case s1 of
                        [] \<Rightarrow> None
                      | c # cs \<Rightarrow> if c = 48 then Some cs else if isDigit c then digits1 s1 else None);
          fraction = (case int_part of
                        None \<Rightarrow> None
                      | Some s2 \<Rightarrow> (case s2 of c # cs \<Rightarrow> (if c = 46 then digits1 cs else Some s2)
                                   | [] \<Rightarrow> Some s2))
      in case fraction of
           None \<Rightarrow> False
         | Some [] \<Rightarrow> True
         | Some (c # cs) \<Rightarrow>
             (c = 101 \<or> c = 69) \<and>
             digits1 (case cs of d # ds \<Rightarrow> (if d = 43 \<or> d = 45 then ds else cs) | [] \<Rightarrow> cs) = Some [])"

definition word_token :: "jsstring \<Rightarrow> token option" where
  "word_token w =
     (if w = js ''null'' then Some (Atom JNull)
      else if w = js ''true'' then Some (Atom (JBool True))
      else if w = js ''false'' then Some (Atom (JBool False))
      else if valid_number w then Some (Atom (JNumber w))
      else None)"

datatype lexer = Idle | InWord jsstring | InString jsstring | InEscape jsstring
  | InUnicode jsstring "nat list"

definition unescape :: "nat \<Rightarrow> nat option" where
  "unescape c =
     (if c = 34 \<or> c = 92 \<or> c = 47 then Some c
      else if c = 98 then Some 8
      else if c = 102 then Some 12
      else if c = 110 then Some 10
      else if c = 114 then Some 13
      else if c = 116 then Some 9
      else None)"

definition idle_step :: "nat \<Rightarrow> (lexer \<times> token list) option" where
  "idle_step c =
     (if isJSONWhiteSpace c then Some (Idle, [])
      else if c = 123 then Some (Idle, [LBrace])
      else if c = 125 then Some (Idle, [RBrace])
      else if c = 91 then Some (Idle, [LBracket])
      else if c = 93 then Some (Idle, [RBracket])
      else if c = 58 then Some (Idle, [Colon])
      else if c = 44 then Some (Idle, [Comma])
      else if c = 34 then Some (InString [], [])
      else if isWordChar c then Some (InWord [c], [])
      else None)"

fun lex_step :: "lexer \<Rightarrow> nat \<Rightarrow> (lexer \<times> token list) option" where
  "lex_step Idle c = idle_step c"
| "lex_step (InWord w) c =
     (if isWordChar c then Some (InWord (w @ [c]), [])
      else (case word_token w of
              None \<Rightarrow> None
            | Some t \<Rightarrow> (case idle_step c of
                           None \<Rightarrow> None
                         | Some (st, ts) \<Rightarrow> Some (st, t # ts))))"
| "lex_step (InString s) c =
     (if c = 34 then Some (Idle, [Str s])
      else if c = 92 then Some (InEscape s, [])
      else if c < 32 then None
      else Some (InString (s @ [c]), []))"
| "lex_step (InEscape s) c =
     (if c = 117 then Some (InUnicode s [], [])
      else (case unescape c of None \<Rightarrow> None | Some u \<Rightarrow> Some (InString (s @ [u]), [])))"
| "lex_step (InUnicode s ds) c =
     (case digitValue 16 c of
        None \<Rightarrow> None
      | Some v \<Rightarrow>
          if length ds = 3 then Some (InString (s @ [foldl (\<lambda>a d. a * 16 + d) 0 (ds @ [v])]), [])
          else Some (InUnicode s (ds @ [v]), []))"

fun lex_end :: "lexer \<Rightarrow> token list option" where
  "lex_end Idle = Some []"
| "lex_end (InWord w) = (case word_token w of None \<Rightarrow> None | Some t \<Rightarrow> Some [t])"
| "lex_end _ = None"

fun lex :: "lexer \<Rightarrow> jsstring \<Rightarrow> token list \<Rightarrow> token list option" where
  "lex st [] acc = (case lex_end st of None \<Rightarrow> None | Some ts \<Rightarrow> Some (acc @ ts))"
| "lex st (c # cs) acc =
     (case lex_step st c of None \<Rightarrow> None | Some (st', ts) \<Rightarrow> lex st' cs (acc @ ts))"

text \<open>
  The second layer reads the tokens with a stack of the arrays and objects that are
  still open; \<open>expect\<close> says what may come next. An object frame holds the key whose
  value is being read.
\<close>

datatype frame = InArray "json list" | InObject "(jsstring \<times> json) list" "jsstring option"

datatype expect = Value | ValueOrEnd | KeyOrEnd | Key | ColonNext | CommaOrEnd | Complete json

fun close_value :: "json \<Rightarrow> frame list \<Rightarrow> (frame list \<times> expect) option" where
  "close_value v [] = Some ([], Complete v)"
| "close_value v (InArray es # st) = Some (InArray (es @ [v]) # st, CommaOrEnd)"
| "close_value v (InObject ms (Some k) # st) = Some (InObject (ms @ [(k, v)]) None # st, CommaOrEnd)"
| "close_value v (InObject ms None # st) = None"

fun close_array :: "frame list \<Rightarrow> (frame list \<times> expect) option" where
  "close_array (InArray es # st) = close_value (JArray es) st"
| "close_array _ = None"

fun close_object :: "frame list \<Rightarrow> (frame list \<times> expect) option" where
  "close_object (InObject ms None # st) = close_value (JObject ms) st"
| "close_object _ = None"

fun open_key :: "jsstring \<Rightarrow> frame list \<Rightarrow> (frame list \<times> expect) option" where
  "open_key k (InObject ms None # st) = Some (InObject ms (Some k) # st, ColonNext)"
| "open_key k _ = None"

fun value_token :: "token \<Rightarrow> frame list \<Rightarrow> (frame list \<times> expect) option" where
  "value_token (Atom v) st = close_value v st"
| "value_token (Str s) st = close_value (JString s) st"
| "value_token LBracket st = Some (InArray [] # st, ValueOrEnd)"
| "value_token LBrace st = Some (InObject [] None # st, KeyOrEnd)"
| "value_token _ st = None"

fun parse_step :: "frame list \<times> expect \<Rightarrow> token \<Rightarrow> (frame list \<times> expect) option" where
  "parse_step (st, Value) t = value_token t st"
| "parse_step (st, ValueOrEnd) t = (if t = RBracket then close_array st else value_token t st)"
| "parse_step (st, KeyOrEnd) t =
     (case t of Str k \<Rightarrow> open_key k st | RBrace \<Rightarrow> close_object st | _ \<Rightarrow> None)"
| "parse_step (st, Key) t = (case t of Str k \<Rightarrow> open_key k st | _ \<Rightarrow> None)"
| "parse_step (st, ColonNext) t = (if t = Colon then Some (st, Value) else None)"
| "parse_step (st, CommaOrEnd) t =
     (case t of
        Comma \<Rightarrow> (case st of
                    InArray es # _ \<Rightarrow> Some (st, Value)
                  | InObject ms k # _ \<Rightarrow> Some (st, Key)
                  | [] \<Rightarrow> None)
      | RBracket \<Rightarrow> close_array st
      | RBrace \<Rightarrow> close_object st
      | _ \<Rightarrow> None)"
| "parse_step (st, Complete v) t = None"

fun parse_tokens :: "frame list \<times> expect \<Rightarrow> token list \<Rightarrow> (frame list \<times> expect) option" where
  "parse_tokens s [] = Some s"
| "parse_tokens s (t # ts) = (case parse_step s t of None \<Rightarrow> None | Some s' \<Rightarrow> parse_tokens s' ts)"

text \<open>\<open>JSON.parse\<close> returns the value of a text that is one JSON value, and throws a SyntaxError on any other text.\<close>

definition JSON_parse :: "jsstring \<Rightarrow> error + json" where
  "JSON_parse text =
     (case lex Idle text [] of
        None \<Rightarrow> Inl SyntaxError
      | Some ts \<Rightarrow>
          (case parse_tokens ([], Value) ts of
             Some ([], Complete v) \<Rightarrow> Inr v
           | _ \<Rightarrow> Inl SyntaxError))"

text \<open>
  The effect that loads the collection when \<open>DeckList\<close> opens. \<open>savedDecks\<close> is what
  \<open>localStorage.getItem('mtgDecks')\<close> returns, \<open>None\<close> being \<open>null\<close>. The result is
  the value of the state variable \<open>decks\<close> afterwards (it starts as the empty array),
  or the exception that leaves the effect.
\<close>

definition DeckList_load :: "jsstring option \<Rightarrow> error + json" where
  "DeckList_load savedDecks =
     (case savedDecks of
        None \<Rightarrow> Inr (JArray [])
      | Some s \<Rightarrow> if s = [] then Inr (JArray []) else JSON_parse s)"

text \<open>
  The effect that loads the deck when \<open>DeckDetail\<close> opens: \<open>decks.find(d => d.id === id)\<close>
  on the parsed value. \<open>find\<close> exists on arrays only, reading \<open>d.id\<close> of \<open>null\<close>
  throws, and of two members with the same key the later one is the property. The
  result is the deck that was found (\<open>None\<close>: the state variable \<open>deck\<close> stays
  \<open>null\<close>); the fields copied from it into the form are left out.
\<close>

fun find_deck :: "jsstring \<Rightarrow> json list \<Rightarrow> error + json option" where
  "find_deck url_id [] = Inr None"
| "find_deck url_id (d # ds) =
     (case d of
        JNull \<Rightarrow> Inl TypeError
      | JObject ms \<Rightarrow>
          if map_of (rev ms) (js ''id'') = Some (JString url_id) then Inr (Some d)
          else find_deck url_id ds
      | _ \<Rightarrow> find_deck url_id ds)"

definition DeckDetail_load :: "jsstring \<Rightarrow> jsstring option \<Rightarrow> error + json option" where
  "DeckDetail_load url_id savedDecks =
     (case savedDecks of
        None \<Rightarrow> Inr None
      | Some s \<Rightarrow>
          if s = [] then Inr None
          else (case JSON_parse s of
                  Inl e \<Rightarrow> Inl e
                | Inr parsed \<Rightarrow> (case parsed of JArray ds \<Rightarrow> find_deck url_id ds | _ \<Rightarrow> Inl TypeError)))"

section \<open>Example values\<close>

definition ex_stats :: stats where
  "ex_stats = \<lparr>wins = Some 2, losses = Some 0, mulligans = Some 0, totalGames = Some 2\<rparr>"

definition ex_deck :: deck where
  "ex_deck = \<lparr>deck_id = js ''1700000000000'', deck_name = js ''Golems'', deck_commander = None,
               decklist = Some [], deck_stats = Some ex_stats, deck_notes = Some [],
               createdAt = js ''2023-11-14T22:13:20.000Z''\<rparr>"

definition ex_deck2 :: deck where
  "ex_deck2 = ex_deck\<lparr>deck_id := js ''1700000000001'', deck_name := js ''Elves''\<rparr>"

definition ex_detail :: detail_state where
  "ex_detail = \<lparr>mtgDecks = Some [ex_deck, ex_deck2], dd_deck = ex_deck, showStatsModal = False,
                 dd_statsInput = \<lparr>in_wins = 2, in_losses = 0, in_mulligans = 0\<rparr>,
                 dd_notes = [], sortBy = js ''name''\<rparr>"

text \<open>A deck as the import creates it, with all statistics at 0, open in the detail view.\<close>

definition ex_fresh :: detail_state where
  "ex_fresh =
     (let d = ex_deck\<lparr>deck_stats := Some \<lparr>wins = Some 0, losses = Some 0, mulligans = Some 0,
                                           totalGames = Some 0\<rparr>\<rparr>
      in \<lparr>mtgDecks = Some [d], dd_deck = d, showStatsModal = False,
          dd_statsInput = \<lparr>in_wins = 0, in_losses = 0, in_mulligans = 0\<rparr>,
          dd_notes = [], sortBy = js ''name''\<rparr>)"

definition ex_text :: jsstring where
  "ex_text = js ''1 Sol Ring\<newline>2x Arcane Signet\<newline>1 - Command Tower\<newline>// comment\<newline>Commander: Foo\<newline>\<newline>''"

definition ex_parsed :: "parsedLine list" where
  "ex_parsed = [\<lparr>pl_name = js ''Sol Ring'', pl_quantity = 1\<rparr>,
                \<lparr>pl_name = js ''Arcane Signet'', pl_quantity = 2\<rparr>,
                \<lparr>pl_name = js ''Command Tower'', pl_quantity = 1\<rparr>]"

definition ex_card :: card where
  "ex_card = \<lparr>card_name = js ''Rampaging Baloths'', quantity = 1, imageUrl = None,
               manaCost = Some (js ''{3}{G}{G}''), cmc = None,
               card_type = Some (js ''Creature''), rarity = js ''rare''\<rparr>"

definition ex_list :: list_state where
  "ex_list = \<lparr>mtgDecks = Some [ex_deck, ex_deck2], decks = [ex_deck, ex_deck2],
               showImportModal = False, decklistText = [], deckName = [], commanderName = [],
               importing = False, alerts = [], location = None\<rparr>"

definition ex_sol_ring :: scryfall where
  "ex_sol_ring = \<lparr>image_uris_normal = Some (js ''https://cards.scryfall.io/normal/sol-ring.jpg''),
                   face_image_uris_normal = None, mana_cost = Some (js ''{1}''),
                   sf_cmc = Some 1, face_cmc = None, type_line = Some (js ''Artifact''),
                   sf_rarity = Some (js ''uncommon'')\<rparr>"

text \<open>
  A transport whose second request fails and which knows Sol Ring only, a storage
  that refuses a third deck, and a lookup step that throws for Arcane Signet.
\<close>

definition ex_fetch :: "query \<Rightarrow> nat \<Rightarrow> (error + response) \<times> nat" where
  "ex_fetch q n =
     (if n = 1 then Inl NetworkError
      else (case q of
              Named cardName \<Rightarrow>
                if cardName = js ''Sol Ring''
                then Inr \<lparr>ok = True, json = Inr (Some \<lparr>as_card = ex_sol_ring, data = None\<rparr>)\<rparr>
                else Inr \<lparr>ok = False, json = Inl SyntaxError\<rparr>
            | Search cardName \<Rightarrow>
                Inr \<lparr>ok = True, json = Inr (Some \<lparr>as_card = ex_sol_ring, data = Some []\<rparr>)\<rparr>),
      n + 1)"

definition ex_quota :: "deck list \<Rightarrow> bool" where
  "ex_quota ds \<longleftrightarrow> length ds > 2"

definition ex_lookup :: "jsstring \<Rightarrow> nat \<Rightarrow> (error + scryfall option) \<times> nat" where
  "ex_lookup cardName n =
     (if cardName = js ''Sol Ring'' then Inr (Some ex_sol_ring)
      else if cardName = js ''Arcane Signet'' then Inl LookupFailure
      else Inr None, n + 1)"

definition ex_import :: list_state where
  "ex_import = ex_list\<lparr>showImportModal := True, decklistText := ex_text,
                        deckName := js ''Artifacts''\<rparr>"

definition ex_cards :: "card list" where
  "ex_cards =
     [\<lparr>card_name = js ''Sol Ring'', quantity = 1, imageUrl = None, manaCost = Some (js ''{1}''),
       cmc = Some 1, card_type = Some (js ''Artifact''), rarity = js ''uncommon''\<rparr>,
      \<lparr>card_name = js ''Arcane Signet'', quantity = 2, imageUrl = None,
       manaCost = Some (js ''{2}''), cmc = Some 2, card_type = Some (js ''Artifact''),
       rarity = js ''common''\<rparr>,
      \<lparr>card_name = js ''Command Tower'', quantity = 1, imageUrl = None, manaCost = Some [],
       cmc = Some 0, card_type = Some (js ''Land''), rarity = js ''common''\<rparr>]"

text \<open>
  Two entries for the card Seance, its e with an acute accent, written once with the
  precomposed letter and once with the letter and the combining mark: the names are
  canonically equivalent and not the same string. And three entries whose type has
  such a letter, written in the two ways.
\<close>

definition ex_seance :: card where
  "ex_seance = \<lparr>card_name = [83, 233, 97, 110, 99, 101], quantity = 1, imageUrl = None,
                 manaCost = Some (js ''{2}{W}{W}''), cmc = Some 4,
                 card_type = Some (js ''Enchantment''), rarity = js ''rare''\<rparr>"

definition ex_seance_decomposed :: card where
  "ex_seance_decomposed = ex_seance\<lparr>card_name := [83, 101, 769, 97, 110, 99, 101]\<rparr>"

definition ex_zombie :: card where
  "ex_zombie = \<lparr>card_name = js ''Zombie'', quantity = 1, imageUrl = None, manaCost = Some [],
                 cmc = Some 2, card_type = Some [67, 114, 233, 97, 116, 117, 114, 101],
                 rarity = js ''common''\<rparr>"

definition ex_myr :: card where
  "ex_myr = ex_zombie\<lparr>card_name := js ''Myr'',
                       card_type := Some [67, 114, 101, 769, 97, 116, 117, 114, 101]\<rparr>"

definition ex_aven :: card where
  "ex_aven = ex_zombie\<lparr>card_name := js ''Aven''\<rparr>"

section \<open>Statistics\<close>

lemma or0_simps [simp]: "or0 None = 0" "or0 (Some n) = n"
  by (simp_all add: or0_def)

lemma saveDeck_deck: "mtgDecks st = Some ds \<Longrightarrow> dd_deck (saveDeck i u st) = u"
  by (simp add: saveDeck_def)

text \<open>
  What the quick adjustment of wins or losses stores: the stat is clamped at 0, the
  total is computed from the delta that was asked for, not from the clamped stat.
\<close>

lemma handleQuickStatUpdate_stats:
  assumes "deck_stats (dd_deck st) = Some s" and "mtgDecks st = Some ds"
  shows "\<exists>st'. handleQuickStatUpdate i k delta st = Inr st' \<and> mtgDecks st' \<noteq> None \<and>
           deck_stats (dd_deck st') = Some
             (case k of
                Wins \<Rightarrow> s\<lparr>wins := Some (max 0 (or0 (wins s) + delta)),
                          totalGames := Some (max 0 (or0 (wins s) + delta + or0 (losses s)))\<rparr>
              | Losses \<Rightarrow> s\<lparr>losses := Some (max 0 (or0 (losses s) + delta)),
                            totalGames := Some (max 0 (or0 (wins s) + or0 (losses s) + delta))\<rparr>
              | Mulligans \<Rightarrow> s\<lparr>mulligans := Some (max 0 (or0 (mulligans s) + delta)),
                               totalGames := Some (or0 (totalGames s))\<rparr>)"
  using assms by (cases k) (simp_all add: handleQuickStatUpdate_def Let_def saveDeck_def)

text \<open>
  The adjustments that keep the total equal to wins plus losses: those that do not
  take the adjusted stat below 0.
\<close>

lemma handleQuickStatUpdate_keeps_total:
  assumes "deck_stats (dd_deck st) = Some s" and "mtgDecks st = Some ds"
    and "wins s = Some w" and "losses s = Some l" and "totalGames s = Some (w + l)"
    and "0 \<le> w" and "0 \<le> l"
    and "k = Wins \<longrightarrow> 0 \<le> w + delta" and "k = Losses \<longrightarrow> 0 \<le> l + delta"
  shows "\<exists>st' s'. handleQuickStatUpdate i k delta st = Inr st' \<and>
           deck_stats (dd_deck st') = Some s' \<and>
           or0 (totalGames s') = or0 (wins s') + or0 (losses s') \<and>
           0 \<le> or0 (wins s') \<and> 0 \<le> or0 (losses s')"
  using handleQuickStatUpdate_stats [OF assms(1,2), of i k delta] assms(3-)
  by (cases k) auto

text \<open>
  C1. After every quick adjustment the total is the sum of wins and losses, and a
  decrement of a stat that is already 0 leaves the stat at 0 and the total as it was.
  The program does not do this. On a new deck, a click on the plus of wins and then
  one on the minus of losses leave 1 win, 0 losses and a total of 0: the losses are
  clamped, the total is lowered all the same.
\<close>

theorem quick_decrement_losses_breaks_total:
  "map_sum id (\<lambda>st. deck_stats (dd_deck st))
     (quick_updates (js ''1700000000000'') [(Wins, 1), (Losses, - 1)] ex_fresh) =
   Inr (Some \<lparr>wins = Some 1, losses = Some 0, mulligans = Some 0, totalGames = Some 0\<rparr>)"
  by (simp add: handleQuickStatUpdate_def Let_def saveDeck_def ex_fresh_def ex_deck_def)

lemma parseInt_minus_3: "parseInt (js ''-3'') = Some (- 3)"
  by (simp add: parseInt_def digitValue_def isWhiteSpace_def)

text \<open>The part of C4 that holds: the saved total is the sum of the saved wins and losses.\<close>

lemma handleUpdateStats_total:
  assumes "mtgDecks st = Some ds"
  shows "\<exists>s. deck_stats (dd_deck (handleUpdateStats i st)) = Some s \<and>
             wins s = Some (in_wins (dd_statsInput st)) \<and>
             losses s = Some (in_losses (dd_statsInput st)) \<and>
             mulligans s = Some (in_mulligans (dd_statsInput st)) \<and>
             totalGames s = Some (in_wins (dd_statsInput st) + in_losses (dd_statsInput st))"
  using assms by (simp add: handleUpdateStats_def Let_def saveDeck_deck)

text \<open>
  C4. The edit form stores a total that is the sum of wins and losses, and never a
  negative stat. The second half fails: the fields are number inputs without a lower
  bound, the handler keeps what \<open>parseInt\<close> reads, and nothing clamps at 0 as the
  quick adjustment does. Typing \<open>-3\<close> into the wins field and saving stores -3 wins
  and a total of -3.
\<close>

theorem edit_form_stores_negative_wins:
  "deck_stats (dd_deck (handleUpdateStats (js ''1700000000000'')
      (onChange_wins (js ''-3'') ex_detail))) =
   Some \<lparr>wins = Some (- 3), losses = Some 0, mulligans = Some 0, totalGames = Some (- 3)\<rparr>"
proof -
  define st1 where "st1 = onChange_wins (js ''-3'') ex_detail"
  have saved: "mtgDecks st1 = Some [ex_deck, ex_deck2]"
    by (simp add: st1_def onChange_wins_def ex_detail_def)
  have input: "dd_statsInput st1 = \<lparr>in_wins = - 3, in_losses = 0, in_mulligans = 0\<rparr>"
    unfolding st1_def onChange_wins_def parseInt_minus_3 by (simp add: ex_detail_def)
  have "deck_stats (dd_deck (handleUpdateStats (js ''1700000000000'') st1)) =
      Some \<lparr>wins = Some (- 3), losses = Some 0, mulligans = Some 0, totalGames = Some (- 3)\<rparr>"
    by (simp add: handleUpdateStats_def Let_def saveDeck_deck [OF saved] input)
  then show ?thesis
    by (simp only: st1_def)
qed

text \<open>
  C9. The win rate divides wins by the total only when the total is positive; with a
  total that is missing, 0 or negative it is the constant 0, so the quotient is never
  the result of a division by zero.
\<close>

theorem winRate_guarded:
  "winRate d \<noteq> ToFixed1 NonFinite \<and>
   (winRate d = Zero \<longleftrightarrow>
      (case deck_stats d of None \<Rightarrow> True
       | Some s \<Rightarrow> (case totalGames s of None \<Rightarrow> True | Some t \<Rightarrow> t \<le> 0))) \<and>
   (\<forall>s t. deck_stats d = Some s \<and> totalGames s = Some t \<and> 0 < t \<longrightarrow>
      winRate d = ToFixed1 (Finite (of_int (or0 (wins s)) / of_int t * 100)))"
  by (auto simp: winRate_def js_divide_def js_times_def split: option.splits)

theorem winRate_guarded_witness:
  "deck_stats ex_deck = Some ex_stats \<and> totalGames ex_stats = Some 2 \<and>
   winRate ex_deck = ToFixed1 (Finite 100) \<and>
   winRate (ex_deck\<lparr>deck_stats := Some (ex_stats\<lparr>totalGames := Some 0\<rparr>)\<rparr>) = Zero \<and>
   winRate (ex_deck\<lparr>deck_stats := None\<rparr>) = Zero"
  using winRate_guarded [of ex_deck]
    winRate_guarded [of "ex_deck\<lparr>deck_stats := Some (ex_stats\<lparr>totalGames := Some 0\<rparr>)\<rparr>"]
    winRate_guarded [of "ex_deck\<lparr>deck_stats := None\<rparr>"]
  by (simp add: ex_deck_def ex_stats_def)

section \<open>Replacing a deck in the collection\<close>

text \<open>
  C7. \<open>saveDeck\<close> rewrites the persisted collection with the new deck in the place of
  every element whose id is the id of the view; the length, the order and every other
  element are as before, and a collection without that id is written back as it was.
  With no persisted collection nothing is written.
\<close>

theorem saveDeck_replaces:
  "(mtgDecks st = None \<longrightarrow> saveDeck i u st = st) \<and>
   (\<forall>ds. mtgDecks st = Some ds \<longrightarrow>
      (\<exists>ds'. mtgDecks (saveDeck i u st) = Some ds' \<and> length ds' = length ds \<and>
         (\<forall>k < length ds. ds' ! k = (if deck_id (ds ! k) = i then u else ds ! k)) \<and>
         ((\<forall>d \<in> set ds. deck_id d \<noteq> i) \<longrightarrow> ds' = ds)))"
proof -
  have "map (\<lambda>d. if deck_id d = i then u else d) ds = ds" if "\<forall>d \<in> set ds. deck_id d \<noteq> i" for ds
    using that by (induction ds) auto
  then show ?thesis
    by (auto simp: saveDeck_def)
qed

theorem saveDeck_replaces_witness:
  "mtgDecks ex_detail = Some [ex_deck, ex_deck2] \<and>
   mtgDecks (saveDeck (js ''1700000000001'') (ex_deck2\<lparr>deck_notes := Some (js ''fast'')\<rparr>) ex_detail) =
     Some [ex_deck, ex_deck2\<lparr>deck_notes := Some (js ''fast'')\<rparr>] \<and>
   mtgDecks (saveDeck (js ''42'') ex_deck2 ex_detail) = Some [ex_deck, ex_deck2] \<and>
   saveDeck (js ''42'') ex_deck2 (ex_detail\<lparr>mtgDecks := None\<rparr>) = ex_detail\<lparr>mtgDecks := None\<rparr>"
  using saveDeck_replaces [of ex_detail "js ''42''" ex_deck2]
    saveDeck_replaces [of "ex_detail\<lparr>mtgDecks := None\<rparr>" "js ''42''" ex_deck2]
  by (simp add: saveDeck_def ex_detail_def ex_deck_def ex_deck2_def)

section \<open>Deleting a deck\<close>

text \<open>
  C10. A confirmed deletion sets the collection in memory and the persisted collection
  to the decks whose id differs from the given id, in their order and unchanged; a
  declined one changes nothing.
\<close>

theorem handleDeleteDeck_filters:
  "decks (handleDeleteDeck True i st) = filter (\<lambda>d. deck_id d \<noteq> i) (decks st) \<and>
   mtgDecks (handleDeleteDeck True i st) = Some (filter (\<lambda>d. deck_id d \<noteq> i) (decks st)) \<and>
   handleDeleteDeck False i st = st"
  by (simp add: handleDeleteDeck_def saveDecks_def)

theorem handleDeleteDeck_filters_witness:
  "mtgDecks (handleDeleteDeck True (js ''1700000000000'') ex_list) = Some [ex_deck2] \<and>
   decks (handleDeleteDeck True (js ''1700000000000'') ex_list) = [ex_deck2] \<and>
   handleDeleteDeck False (js ''1700000000000'') ex_list = ex_list"
  using handleDeleteDeck_filters [of "js ''1700000000000''" ex_list]
  by (simp add: ex_list_def ex_deck_def ex_deck2_def)

section \<open>Mana value\<close>

lemma getManaValue_cmc: "cmc c = Some v \<Longrightarrow> getManaValue c = v"
  by (simp add: getManaValue_def)

lemma getManaValue_no_cost:
  "cmc c = None \<Longrightarrow> manaCost c = None \<or> manaCost c = Some [] \<Longrightarrow> getManaValue c = 0"
  by (auto simp: getManaValue_def)

text \<open>
  C6. The stored cmc is returned whenever it is present, 0 included, and without a
  cmc and without a cost the value is 0 (the two lemmas above). Without a cmc the
  digits between braces are summed and a colour symbol adds nothing, so the cost
  \<open>{3}{G}{G}\<close> gives 3, not the 5 that the claim and the comment above the function
  give for it.
\<close>

theorem getManaValue_fallback_ignores_pips:
  "getManaValue ex_card = 3"
  by (simp add: getManaValue_def ex_card_def isDigit_def parseInt_def digitValue_def
      isWhiteSpace_def)

section \<open>Parsing a decklist\<close>

lemma parse_line_append: "parse_line line cards = cards @ parse_line line []"
  by (simp add: parse_line_def Let_def split: option.splits prod.splits)

lemma parse_lines_concat:
  "parse_lines ls cards = cards @ concat (map (\<lambda>l. parse_line l []) ls)"
proof (induction ls arbitrary: cards)
  case Nil
  show ?case by simp
next
  case (Cons l ls)
  show ?case
    using parse_line_append [of l cards] by (simp add: Cons.IH)
qed

lemma line_match_no_digit:
  "(case line of [] \<Rightarrow> True | c # _ \<Rightarrow> \<not> isDigit c) \<Longrightarrow> line_match line = None"
  by (cases line) (simp_all add: line_match_def line_matches_def)

lemma parseDecklist_example: "parseDecklist ex_text = ex_parsed"
  by (simp add: ex_text_def ex_parsed_def parseDecklist_def parse_line_def trim_def
      toLowerCase_def parseInt_def digitValue_def line_match_def line_matches_def greedy_def
      optional_def isDigit_def isWhiteSpace_def isLineTerminator_def)

text \<open>
  C5. The text of the specification parses to Sol Ring (1), Arcane Signet (2) and
  Command Tower (1), in this order and nothing else. For every text the result is the
  concatenation of what each trimmed, non-empty line contributes, and a line that does
  not begin with a digit contributes nothing.
\<close>

theorem parseDecklist_lines:
  "parseDecklist ex_text =
     [\<lparr>pl_name = js ''Sol Ring'', pl_quantity = 1\<rparr>,
      \<lparr>pl_name = js ''Arcane Signet'', pl_quantity = 2\<rparr>,
      \<lparr>pl_name = js ''Command Tower'', pl_quantity = 1\<rparr>] \<and>
   parseDecklist t =
     concat (map (\<lambda>l. parse_line l []) (filter (\<lambda>l. l \<noteq> []) (map trim (split_on 10 t)))) \<and>
   ((case line of [] \<Rightarrow> True | c # _ \<Rightarrow> \<not> isDigit c) \<longrightarrow> parse_line line cards = cards)"
proof (intro conjI impI)
  show "parseDecklist ex_text =
     [\<lparr>pl_name = js ''Sol Ring'', pl_quantity = 1\<rparr>,
      \<lparr>pl_name = js ''Arcane Signet'', pl_quantity = 2\<rparr>,
      \<lparr>pl_name = js ''Command Tower'', pl_quantity = 1\<rparr>]"
    using parseDecklist_example by (simp only: ex_parsed_def)
  show "parseDecklist t =
     concat (map (\<lambda>l. parse_line l []) (filter (\<lambda>l. l \<noteq> []) (map trim (split_on 10 t))))"
    by (simp add: parseDecklist_def parse_lines_concat)
  assume "case line of [] \<Rightarrow> True | c # _ \<Rightarrow> \<not> isDigit c"
  then show "parse_line line cards = cards"
    by (simp add: parse_line_def line_match_no_digit)
qed

lemma sol_ring_no_digit: "case js ''Sol Ring'' of [] \<Rightarrow> True | c # _ \<Rightarrow> \<not> isDigit c"
  by (simp add: isDigit_def)

theorem parseDecklist_lines_witness:
  "(case js ''Sol Ring'' of [] \<Rightarrow> True | c # _ \<Rightarrow> \<not> isDigit c) \<and>
   parse_line (js ''Sol Ring'') [] = [] \<and> parseDecklist (js ''Sol Ring'') = []"
proof -
  have l: "filter (\<lambda>l. l \<noteq> []) (map trim (split_on 10 (js ''Sol Ring''))) = [js ''Sol Ring'']"
    by (simp add: trim_def isWhiteSpace_def)
  have p: "parse_line (js ''Sol Ring'') [] = []"
    using parseDecklist_lines [of _ "js ''Sol Ring''" "[]"] sol_ring_no_digit by blast
  have "parseDecklist (js ''Sol Ring'') = concat (map (\<lambda>l. parse_line l []) [js ''Sol Ring''])"
    using parseDecklist_lines [of "js ''Sol Ring''"] l by metis
  then show ?thesis
    using p sol_ring_no_digit by simp
qed

section \<open>Importing a deck\<close>

lemma card_entry_name: "card_name (card_entry p d) = pl_name p"
  by (simp add: card_entry_def)

lemma import_cards_names:
  "import_cards lookup lc ctf ps acc cd net = (Inr (cs, found), net') \<Longrightarrow>
   map card_name cs = map card_name acc @ map pl_name ps"
proof (induction ps arbitrary: acc cd net)
  case Nil
  then show ?case by simp
next
  case (Cons p ps)
  then show ?case
    by (auto simp: card_entry_name split: prod.splits sum.splits)
qed

lemma import_cards_raises:
  assumes "p \<in> set ps" and "\<forall>n. \<exists>e. fst (lookup (pl_name p) n) = Inl e"
  shows "\<exists>e. fst (import_cards lookup lc ctf ps acc cd net) = Inl e"
  using assms(1)
proof (induction ps arbitrary: acc cd net)
  case Nil
  then show ?case by simp
next
  case (Cons q ps)
  obtain r net1 where l: "lookup (pl_name q) net = (r, net1)"
    by (cases "lookup (pl_name q) net")
  show ?case
  proof (cases r)
    case (Inl e)
    then show ?thesis using l by simp
  next
    case (Inr d)
    have "p \<noteq> q"
    proof
      assume "p = q"
      then have "\<exists>e. r = Inl e" using assms(2) l by (metis fst_conv)
      then show False using Inr by simp
    qed
    then have "p \<in> set ps" using Cons.prems by simp
    then show ?thesis using Cons.IH l Inr by simp
  qed
qed

lemma lookup_of_never_throws: "\<exists>d net1. lookup_of fetch name net = (Inr d, net1)"
  by (simp add: lookup_of_def split: prod.splits)

lemma import_cards_own:
  "\<exists>cs found net1. import_cards (lookup_of fetch) lc ctf ps acc cd net = (Inr (cs, found), net1)"
proof (induction ps arbitrary: acc cd net)
  case Nil
  then show ?case by simp
next
  case (Cons q ps)
  obtain d net1 where "lookup_of fetch (pl_name q) net = (Inr d, net1)"
    using lookup_of_never_throws [of fetch "pl_name q" net] by blast
  then show ?case using Cons.IH by simp
qed


lemma import_cards_Inl:
  "import_cards lookup lc ctf ps acc cd net = (Inl e, net') \<Longrightarrow>
   \<exists>name n. fst (lookup name n) = Inl e"
proof (induction ps arbitrary: acc cd net)
  case Nil
  then show ?case by simp
next
  case (Cons q ps)
  obtain r net1 where l: "lookup (pl_name q) net = (r, net1)"
    by (cases "lookup (pl_name q) net")
  show ?case
  proof (cases r)
    case (Inl e')
    then have "e' = e" using Cons.prems l by simp
    then show ?thesis using l Inl by (metis fst_conv)
  next
    case (Inr d)
    then show ?thesis using Cons.IH Cons.prems l by simp
  qed
qed

lemma import_body_cases:
  assumes body: "import_body lookup lc sit now ts net st0 = (thrown, st1)"
  obtains
    (no_cards) "parseDecklist (decklistText st0) = []" "thrown = None"
      "st1 = st0\<lparr>alerts := alerts st0 @ [NoValidCardsFound], importing := False\<rparr>"
  | (lookup_threw) e where "thrown = Some e" "st1 = st0"
      "\<exists>name n. fst (lookup name n) = Inl e"
  | (write_threw) newDeck cs where "thrown = Some QuotaExceededError"
      "sit (decks st0 @ [newDeck])" "st1 = st0\<lparr>decks := decks st0 @ [newDeck]\<rparr>"
      "decklist newDeck = Some cs"
      "map card_name cs = map pl_name (parseDecklist (decklistText st0))"
      "\<exists>ctf found net1. import_cards lookup lc ctf (parseDecklist (decklistText st0)) [] None net =
         (Inr (cs, found), net1)"
  | (saved) newDeck cs where "thrown = None" "\<not> sit (decks st0 @ [newDeck])"
      "mtgDecks st1 = Some (decks st0 @ [newDeck])" "decks st1 = decks st0 @ [newDeck]"
      "alerts st1 = alerts st0" "decklist newDeck = Some cs"
      "map card_name cs = map pl_name (parseDecklist (decklistText st0))"
      "\<exists>ctf found net1. import_cards lookup lc ctf (parseDecklist (decklistText st0)) [] None net =
         (Inr (cs, found), net1)"
proof (cases "parseDecklist (decklistText st0)")
  case Nil
  then show ?thesis
    using body no_cards by (simp add: import_body_def)
next
  case (Cons first others)
  define given where "given = trim (commanderName st0)"
  define ctf where "ctf = (if given \<noteq> [] then given else pl_name first)"
  have eq: "import_body lookup lc sit now ts net st0 =
      (case import_cards lookup lc ctf (first # others) [] None net of
         (Inl e, net1) \<Rightarrow> (Some e, st0)
       | (Inr (cards, found), net1) \<Rightarrow>
           (case (if given \<noteq> [] \<and> found = None then lookup given net1
                  else (Inr found, net1)) of
              (Inl e, net2) \<Rightarrow> (Some e, st0)
            | (Inr commanderData, net2) \<Rightarrow>
                (case saveDecks sit
                        (decks st0 @ [new_deck now ts (trim (deckName st0)) given first
                                        cards commanderData]) st0 of
                   (Some e, s) \<Rightarrow> (Some e, s)
                 | (None, s) \<Rightarrow>
                     (None, s\<lparr>showImportModal := False, decklistText := [], deckName := [],
                              commanderName := [],
                              location := Some (js ''/deck/'' @
                                deck_id (new_deck now ts (trim (deckName st0)) given first
                                           cards commanderData))\<rparr>))))"
    unfolding import_body_def Cons list.case Let_def given_def ctf_def by (rule refl)
  obtain r net1 where loop: "import_cards lookup lc ctf (first # others) [] None net = (r, net1)"
    by (cases "import_cards lookup lc ctf (first # others) [] None net")
  show ?thesis
  proof (cases r)
    case (Inl e)
    then have "thrown = Some e" "st1 = st0"
      using body unfolding eq loop by simp_all
    moreover have "\<exists>name n. fst (lookup name n) = Inl e"
      using import_cards_Inl [of lookup lc ctf "first # others" "[]" None net e net1] loop Inl
      by simp
    ultimately show ?thesis by (rule lookup_threw)
  next
    case (Inr res)
    obtain cs found where res: "res = (cs, found)"
      by (cases res)
    have ran: "\<exists>ctf found net1.
        import_cards lookup lc ctf (parseDecklist (decklistText st0)) [] None net =
          (Inr (cs, found), net1)"
      using loop Inr res Cons by auto
    have names: "map card_name cs = map pl_name (parseDecklist (decklistText st0))"
      using import_cards_names [of lookup lc ctf "first # others" "[]" None net cs found net1]
        loop Inr res Cons by simp
    obtain r2 net2 where extra:
      "(if given \<noteq> [] \<and> found = None then lookup given net1 else (Inr found, net1)) = (r2, net2)"
      by (cases "if given \<noteq> [] \<and> found = None then lookup given net1 else (Inr found, net1)")
    have eq2: "(thrown, st1) =
        (case (r2, net2) of
              (Inl e, net2) \<Rightarrow> (Some e, st0)
            | (Inr commanderData, net2) \<Rightarrow>
                (case saveDecks sit
                        (decks st0 @ [new_deck now ts (trim (deckName st0)) given first
                                        cs commanderData]) st0 of
                   (Some e, s) \<Rightarrow> (Some e, s)
                 | (None, s) \<Rightarrow>
                     (None, s\<lparr>showImportModal := False, decklistText := [], deckName := [],
                              commanderName := [],
                              location := Some (js ''/deck/'' @
                                deck_id (new_deck now ts (trim (deckName st0)) given first
                                           cs commanderData))\<rparr>)))"
      using body unfolding eq loop Inr res by (simp only: prod.case sum.case extra)
    show ?thesis
    proof (cases r2)
      case (Inl e)
      then have "thrown = Some e" "st1 = st0"
        using eq2 by simp_all
      moreover have "fst (lookup given net1) = Inl e"
        using extra Inl by (auto split: if_splits)
      ultimately show ?thesis using lookup_threw by blast
    next
      case commander: (Inr commanderData)
      define newDeck where
        "newDeck = new_deck now ts (trim (deckName st0)) given first cs commanderData"
      have dl: "decklist newDeck = Some cs"
        by (simp add: newDeck_def new_deck_def)
      have run: "(thrown, st1) =
          (case saveDecks sit (decks st0 @ [newDeck]) st0 of
             (Some e, s) \<Rightarrow> (Some e, s)
           | (None, s) \<Rightarrow>
               (None, s\<lparr>showImportModal := False, decklistText := [], deckName := [],
                        commanderName := [],
                        location := Some (js ''/deck/'' @ deck_id newDeck)\<rparr>))"
        using eq2 unfolding commander newDeck_def by (simp only: prod.case sum.case)
      show ?thesis
      proof (cases "sit (decks st0 @ [newDeck])")
        case True
        then have "thrown = Some QuotaExceededError" "st1 = st0\<lparr>decks := decks st0 @ [newDeck]\<rparr>"
          using run by (simp_all add: saveDecks_def Let_def)
        then show ?thesis using True dl names ran write_threw by blast
      next
        case False
        then have "thrown = None" "mtgDecks st1 = Some (decks st0 @ [newDeck])"
          "decks st1 = decks st0 @ [newDeck]" "alerts st1 = alerts st0"
          using run by (simp_all add: saveDecks_def Let_def)
        then show ?thesis using False dl names ran saved by blast
      qed
    qed
  qed
qed


lemma handleImport_with_state:
  assumes "trim (decklistText st) \<noteq> []" and "trim (deckName st) \<noteq> []"
    and "import_body lookup lc sit now ts net (st\<lparr>importing := True\<rparr>) = (thrown, st1)"
  shows "handleImport_with lookup lc sit now ts net st =
           (case thrown of Some e \<Rightarrow> st1\<lparr>alerts := alerts st1 @ [FailedToImport]\<rparr>
            | None \<Rightarrow> st1)\<lparr>importing := False\<rparr>"
  using assms by (simp add: handleImport_with_def Let_def)

text \<open>
  C2. The import is atomic for the persisted collection. Once the two validations have
  passed, an exception that leaves the \<open>try\<close> block, whatever the lookup step and the
  storage do, ends the import with the failure message and leaves the persisted
  collection as it was. A lookup step that throws for a line of the decklist is such
  an exception, and then the collection in memory is unchanged too. Whenever the
  persisted collection does change, it is the old collection with one deck appended
  whose decklist has an entry for every parsed line, in order, and no failure is
  reported. With the program's own lookup step, which catches what the transport
  throws, the only exception is the one of \<open>setItem\<close>: the write has not happened,
  while the collection in memory already holds the new deck; and with a storage that
  takes the write the import of a decklist with cards always commits.
\<close>

theorem handleImport_atomic:
  assumes valid: "trim (decklistText st) \<noteq> []" "trim (deckName st) \<noteq> []"
  shows
    "(\<forall>e st1. import_body lookup lowerCase setItem_throws now timestamp net
                 (st\<lparr>importing := True\<rparr>) = (Some e, st1) \<longrightarrow>
        mtgDecks (handleImport_with lookup lowerCase setItem_throws now timestamp net st) =
          mtgDecks st \<and>
        alerts (handleImport_with lookup lowerCase setItem_throws now timestamp net st) =
          alerts st @ [FailedToImport]) \<and>
     (\<forall>p. p \<in> set (parseDecklist (decklistText st)) \<and>
          (\<forall>n. \<exists>e. fst (lookup (pl_name p) n) = Inl e) \<longrightarrow>
        (\<exists>e. import_body lookup lowerCase setItem_throws now timestamp net
                (st\<lparr>importing := True\<rparr>) = (Some e, st\<lparr>importing := True\<rparr>)) \<and>
        decks (handleImport_with lookup lowerCase setItem_throws now timestamp net st) =
          decks st) \<and>
     (mtgDecks (handleImport_with lookup lowerCase setItem_throws now timestamp net st) \<noteq>
        mtgDecks st \<longrightarrow>
        (\<exists>newDeck cs.
           mtgDecks (handleImport_with lookup lowerCase setItem_throws now timestamp net st) =
             Some (decks st @ [newDeck]) \<and>
           decks (handleImport_with lookup lowerCase setItem_throws now timestamp net st) =
             decks st @ [newDeck] \<and>
           decklist newDeck = Some cs \<and>
           map card_name cs = map pl_name (parseDecklist (decklistText st)) \<and>
           alerts (handleImport_with lookup lowerCase setItem_throws now timestamp net st) =
             alerts st)) \<and>
     (\<forall>e st1. import_body (lookup_of fetch) lowerCase setItem_throws now timestamp net
                 (st\<lparr>importing := True\<rparr>) = (Some e, st1) \<longrightarrow>
        e = QuotaExceededError \<and>
        mtgDecks (handleImport fetch lowerCase setItem_throws now timestamp net st) = mtgDecks st \<and>
        alerts (handleImport fetch lowerCase setItem_throws now timestamp net st) =
          alerts st @ [FailedToImport] \<and>
        (\<exists>newDeck cs.
           setItem_throws (decks st @ [newDeck]) \<and>
           decks (handleImport fetch lowerCase setItem_throws now timestamp net st) =
             decks st @ [newDeck] \<and>
           decklist newDeck = Some cs \<and>
           map card_name cs = map pl_name (parseDecklist (decklistText st)))) \<and>
     (parseDecklist (decklistText st) \<noteq> [] \<and> (\<forall>ds. \<not> setItem_throws ds) \<longrightarrow>
        (\<exists>newDeck.
           mtgDecks (handleImport fetch lowerCase setItem_throws now timestamp net st) =
             Some (decks st @ [newDeck])))"
proof (intro conjI allI impI)
  fix e st1
  assume b: "import_body lookup lowerCase setItem_throws now timestamp net
                 (st\<lparr>importing := True\<rparr>) = (Some e, st1)"
  note h = handleImport_with_state [OF valid b]
  from b have "mtgDecks st1 = mtgDecks st \<and> alerts st1 = alerts st"
    by (cases rule: import_body_cases) auto
  then show "mtgDecks (handleImport_with lookup lowerCase setItem_throws now timestamp net st) =
          mtgDecks st"
    "alerts (handleImport_with lookup lowerCase setItem_throws now timestamp net st) =
          alerts st @ [FailedToImport]"
    by (simp_all add: h)
next
  fix p
  assume p: "p \<in> set (parseDecklist (decklistText st)) \<and>
          (\<forall>n. \<exists>e. fst (lookup (pl_name p) n) = Inl e)"
  obtain thrown st1 where b: "import_body lookup lowerCase setItem_throws now timestamp net
                 (st\<lparr>importing := True\<rparr>) = (thrown, st1)"
    by (cases "import_body lookup lowerCase setItem_throws now timestamp net
                 (st\<lparr>importing := True\<rparr>)")
  have raises: "\<exists>e. fst (import_cards lookup lowerCase ctf (parseDecklist (decklistText st)) []
                      None net) = Inl e" for ctf
    using import_cards_raises [of p "parseDecklist (decklistText st)" lookup lowerCase ctf "[]"
        None net] p by simp
  from b have r: "(\<exists>e. thrown = Some e) \<and> st1 = st\<lparr>importing := True\<rparr>"
  proof (cases rule: import_body_cases)
    case no_cards
    then show ?thesis using p by simp
  next
    case (lookup_threw e)
    then show ?thesis by simp
  next
    case (write_threw newDeck cs)
    from write_threw(6) obtain ctf found net1 where
      "import_cards lookup lowerCase ctf (parseDecklist (decklistText st)) [] None net =
         (Inr (cs, found), net1)"
      by auto
    then show ?thesis using raises [of ctf] by simp
  next
    case (saved newDeck cs)
    from saved(8) obtain ctf found net1 where
      "import_cards lookup lowerCase ctf (parseDecklist (decklistText st)) [] None net =
         (Inr (cs, found), net1)"
      by auto
    then show ?thesis using raises [of ctf] by simp
  qed
  then show "\<exists>e. import_body lookup lowerCase setItem_throws now timestamp net
                (st\<lparr>importing := True\<rparr>) = (Some e, st\<lparr>importing := True\<rparr>)"
    using b by auto
  show "decks (handleImport_with lookup lowerCase setItem_throws now timestamp net st) = decks st"
    using r handleImport_with_state [OF valid b] by auto
next
  assume changed: "mtgDecks (handleImport_with lookup lowerCase setItem_throws now timestamp net st) \<noteq>
        mtgDecks st"
  obtain thrown st1 where b: "import_body lookup lowerCase setItem_throws now timestamp net
                 (st\<lparr>importing := True\<rparr>) = (thrown, st1)"
    by (cases "import_body lookup lowerCase setItem_throws now timestamp net
                 (st\<lparr>importing := True\<rparr>)")
  note h = handleImport_with_state [OF valid b]
  from b show "\<exists>newDeck cs.
           mtgDecks (handleImport_with lookup lowerCase setItem_throws now timestamp net st) =
             Some (decks st @ [newDeck]) \<and>
           decks (handleImport_with lookup lowerCase setItem_throws now timestamp net st) =
             decks st @ [newDeck] \<and>
           decklist newDeck = Some cs \<and>
           map card_name cs = map pl_name (parseDecklist (decklistText st)) \<and>
           alerts (handleImport_with lookup lowerCase setItem_throws now timestamp net st) =
             alerts st"
  proof (cases rule: import_body_cases)
    case no_cards
    then show ?thesis using changed h by simp
  next
    case (lookup_threw e)
    then show ?thesis using changed h by simp
  next
    case (write_threw newDeck cs)
    then show ?thesis using changed h by simp
  next
    case (saved newDeck cs)
    then show ?thesis using h by auto
  qed
next
  fix e st1
  assume b: "import_body (lookup_of fetch) lowerCase setItem_throws now timestamp net
                 (st\<lparr>importing := True\<rparr>) = (Some e, st1)"
  have h: "handleImport fetch lowerCase setItem_throws now timestamp net st =
      st1\<lparr>alerts := alerts st1 @ [FailedToImport], importing := False\<rparr>"
    using handleImport_with_state [OF valid b] by (simp add: handleImport_def)
  from b have "e = QuotaExceededError \<and> mtgDecks st1 = mtgDecks st \<and> alerts st1 = alerts st \<and>
      (\<exists>newDeck cs. setItem_throws (decks st @ [newDeck]) \<and> decks st1 = decks st @ [newDeck] \<and>
         decklist newDeck = Some cs \<and>
         map card_name cs = map pl_name (parseDecklist (decklistText st)))"
  proof (cases rule: import_body_cases)
    case no_cards
    then show ?thesis by simp
  next
    case (lookup_threw e')
    then obtain name n where "fst (lookup_of fetch name n) = Inl e'"
      by blast
    then show ?thesis
      using lookup_of_never_throws [of fetch name n] by auto
  next
    case (write_threw newDeck cs)
    then show ?thesis by auto
  next
    case (saved newDeck cs)
    then show ?thesis by simp
  qed
  then show "e = QuotaExceededError"
    "mtgDecks (handleImport fetch lowerCase setItem_throws now timestamp net st) = mtgDecks st"
    "alerts (handleImport fetch lowerCase setItem_throws now timestamp net st) =
          alerts st @ [FailedToImport]"
    "\<exists>newDeck cs.
           setItem_throws (decks st @ [newDeck]) \<and>
           decks (handleImport fetch lowerCase setItem_throws now timestamp net st) =
             decks st @ [newDeck] \<and>
           decklist newDeck = Some cs \<and>
           map card_name cs = map pl_name (parseDecklist (decklistText st))"
    by (simp_all add: h)
next
  assume ok: "parseDecklist (decklistText st) \<noteq> [] \<and> (\<forall>ds. \<not> setItem_throws ds)"
  obtain thrown st1 where b: "import_body (lookup_of fetch) lowerCase setItem_throws now timestamp net
                 (st\<lparr>importing := True\<rparr>) = (thrown, st1)"
    by (cases "import_body (lookup_of fetch) lowerCase setItem_throws now timestamp net
                 (st\<lparr>importing := True\<rparr>)")
  note h = handleImport_with_state [OF valid b]
  from b show "\<exists>newDeck.
           mtgDecks (handleImport fetch lowerCase setItem_throws now timestamp net st) =
             Some (decks st @ [newDeck])"
  proof (cases rule: import_body_cases)
    case no_cards
    then show ?thesis using ok by simp
  next
    case (lookup_threw e')
    then obtain name n where "fst (lookup_of fetch name n) = Inl e'"
      by blast
    then show ?thesis
      using lookup_of_never_throws [of fetch name n] by auto
  next
    case (write_threw newDeck cs)
    then show ?thesis using ok by simp
  next
    case (saved newDeck cs)
    then show ?thesis using h by (auto simp: handleImport_def)
  qed
qed


lemma ex_import_valid: "trim (decklistText ex_import) \<noteq> []" "trim (deckName ex_import) \<noteq> []"
  by (simp_all add: ex_import_def ex_list_def ex_text_def trim_def isWhiteSpace_def)

lemma ex_import_parsed:
  "parseDecklist (decklistText (ex_import\<lparr>importing := True\<rparr>)) = ex_parsed"
  "parseDecklist (decklistText ex_import) = ex_parsed"
  by (simp_all add: ex_import_def parseDecklist_example)

lemma ex_import_fields:
  "trim (commanderName (ex_import\<lparr>importing := True\<rparr>)) = []"
  "decks (ex_import\<lparr>importing := True\<rparr>) = [ex_deck, ex_deck2]"
  "mtgDecks ex_import = Some [ex_deck, ex_deck2]" "decks ex_import = [ex_deck, ex_deck2]"
  by (simp_all add: ex_import_def ex_list_def trim_def)

lemma ex_own_import_throws:
  "fst (import_body (lookup_of ex_fetch) toLowerCase ex_quota (js ''1700000000002'')
         (js ''2023-11-14T22:13:20.002Z'') 0 (ex_import\<lparr>importing := True\<rparr>)) =
   Some QuotaExceededError"
  unfolding import_body_def ex_import_parsed ex_import_fields
  by (simp add: ex_parsed_def lookup_of_def fetchScryfallCard_def ex_fetch_def saveDecks_def
      ex_quota_def Let_def)


lemma ex_lookup_throws: "\<forall>n. \<exists>e. fst (ex_lookup (pl_name \<lparr>pl_name = js ''Arcane Signet'', pl_quantity = 2\<rparr>) n) = Inl e"
  by (simp add: ex_lookup_def)

lemma ex_signet_parsed:
  "\<lparr>pl_name = js ''Arcane Signet'', pl_quantity = 2\<rparr> \<in> set (parseDecklist (decklistText ex_import))"
  unfolding ex_import_parsed by (simp add: ex_parsed_def)

theorem handleImport_atomic_witness:
  "trim (decklistText ex_import) \<noteq> [] \<and> trim (deckName ex_import) \<noteq> [] \<and>
   mtgDecks ex_import = Some [ex_deck, ex_deck2] \<and>
   fst (import_body (lookup_of ex_fetch) toLowerCase ex_quota (js ''1700000000002'')
          (js ''2023-11-14T22:13:20.002Z'') 0 (ex_import\<lparr>importing := True\<rparr>)) =
     Some QuotaExceededError \<and>
   mtgDecks (handleImport ex_fetch toLowerCase ex_quota (js ''1700000000002'')
               (js ''2023-11-14T22:13:20.002Z'') 0 ex_import) = Some [ex_deck, ex_deck2] \<and>
   length (decks (handleImport ex_fetch toLowerCase ex_quota (js ''1700000000002'')
                    (js ''2023-11-14T22:13:20.002Z'') 0 ex_import)) = 3 \<and>
   \<lparr>pl_name = js ''Arcane Signet'', pl_quantity = 2\<rparr> \<in> set (parseDecklist (decklistText ex_import)) \<and>
   fst (ex_lookup (js ''Arcane Signet'') 1) = Inl LookupFailure \<and>
   mtgDecks (handleImport_with ex_lookup toLowerCase (\<lambda>ds. False) (js ''1700000000002'')
               (js ''2023-11-14T22:13:20.002Z'') 0 ex_import) = Some [ex_deck, ex_deck2] \<and>
   decks (handleImport_with ex_lookup toLowerCase (\<lambda>ds. False) (js ''1700000000002'')
               (js ''2023-11-14T22:13:20.002Z'') 0 ex_import) = [ex_deck, ex_deck2]"
proof -
  define now where "now = js ''1700000000002''"
  define ts where "ts = js ''2023-11-14T22:13:20.002Z''"
  note own = handleImport_atomic [OF ex_import_valid, of "lookup_of ex_fetch" toLowerCase ex_quota
      now ts 0 ex_fetch]
  note mock = handleImport_atomic [OF ex_import_valid, of ex_lookup toLowerCase "\<lambda>ds. False"
      now ts 0 ex_fetch]
  have threw: "fst (import_body (lookup_of ex_fetch) toLowerCase ex_quota now ts 0
         (ex_import\<lparr>importing := True\<rparr>)) = Some QuotaExceededError"
    unfolding now_def ts_def by (rule ex_own_import_throws)
  then obtain st1 where b: "import_body (lookup_of ex_fetch) toLowerCase ex_quota now ts 0
         (ex_import\<lparr>importing := True\<rparr>) = (Some QuotaExceededError, st1)"
    by (cases "import_body (lookup_of ex_fetch) toLowerCase ex_quota now ts 0
         (ex_import\<lparr>importing := True\<rparr>)") simp
  have a: "mtgDecks (handleImport ex_fetch toLowerCase ex_quota now ts 0 ex_import) =
      mtgDecks ex_import"
    using own b by blast
  obtain newDeck where "decks (handleImport ex_fetch toLowerCase ex_quota now ts 0 ex_import) =
      decks ex_import @ [newDeck]"
    using own b by blast
  then have l: "length (decks (handleImport ex_fetch toLowerCase ex_quota now ts 0 ex_import)) = 3"
    by (simp add: ex_import_fields)
  have m: "mtgDecks (handleImport_with ex_lookup toLowerCase (\<lambda>ds. False) now ts 0 ex_import) =
      mtgDecks ex_import"
    "decks (handleImport_with ex_lookup toLowerCase (\<lambda>ds. False) now ts 0 ex_import) =
      decks ex_import"
    using mock ex_signet_parsed ex_lookup_throws by blast+
  have t: "fst (ex_lookup (js ''Arcane Signet'') 1) = Inl LookupFailure"
    by (simp add: ex_lookup_def)
  show ?thesis
    using ex_import_valid ex_import_fields(3,4) threw a l ex_signet_parsed t m
    unfolding now_def ts_def by simp
qed

section \<open>Sorting\<close>

lemma insert_sorted_sorted:
  assumes "total_preorder cmp" and "sorted_wrt (\<lambda>a b. cmp a b \<le> 0) ys"
  shows "sorted_wrt (\<lambda>a b. cmp a b \<le> 0) (insert_sorted cmp x ys)"
  using assms(2)
proof (induction ys)
  case Nil
  then show ?case by simp
next
  case (Cons y ys)
  have set_ins: "set (insert_sorted cmp x zs) = insert x (set zs)" for zs
    by (induction zs) auto
  show ?case
  proof (cases "cmp x y \<le> 0")
    case True
    then have "\<forall>z \<in> set ys. cmp x z \<le> 0"
      using Cons.prems assms(1) unfolding total_preorder_def by (metis sorted_wrt.simps(2))
    then show ?thesis
      using True Cons.prems by simp
  next
    case False
    then have "cmp y x \<le> 0"
      using assms(1) unfolding total_preorder_def by blast
    then show ?thesis
      using False Cons by (auto simp: set_ins)
  qed
qed

lemma Array_sort_sorted:
  "total_preorder cmp \<Longrightarrow> sorted_wrt (\<lambda>a b. cmp a b \<le> 0) (Array_sort cmp xs)"
  by (induction xs) (simp_all add: insert_sorted_sorted)

lemma Array_sort_of_sorted:
  "sorted_wrt (\<lambda>a b. cmp a b \<le> 0) xs \<Longrightarrow> Array_sort cmp xs = xs"
proof (induction xs)
  case Nil
  then show ?case by simp
next
  case (Cons x xs)
  then have "Array_sort cmp xs = xs" by simp
  then show ?case
    using Cons.prems by (cases xs) auto
qed

lemma Array_sort_idem:
  "total_preorder cmp \<Longrightarrow> Array_sort cmp (Array_sort cmp xs) = Array_sort cmp xs"
  by (simp add: Array_sort_of_sorted Array_sort_sorted)

lemma mset_insert_sorted: "mset (insert_sorted cmp x ys) = add_mset x (mset ys)"
  by (induction ys) simp_all

lemma mset_Array_sort: "mset (Array_sort cmp xs) = mset xs"
  by (induction xs) (simp_all add: mset_insert_sorted)

lemma mset_sort_cards: "mset (sort_cards lc key xs) = mset xs"
  by (simp add: sort_cards_def mset_Array_sort)

lemma compare_name_le: "compare_name lc a b \<le> 0 \<longleftrightarrow> lc (card_name a) (card_name b) \<le> 0"
  by (simp add: compare_name_def)

lemma compare_mana_le:
  "compare_mana lc a b \<le> 0 \<longleftrightarrow>
     getManaValue a < getManaValue b \<or>
     (getManaValue a = getManaValue b \<and> lc (card_name a) (card_name b) \<le> 0)"
  by (auto simp: compare_mana_def Let_def)

lemma compare_type_le:
  "compare_type lc a b \<le> 0 \<longleftrightarrow>
     (getCardType (card_type a) \<noteq> getCardType (card_type b) \<and>
      lc (getCardType (card_type a)) (getCardType (card_type b)) \<le> 0) \<or>
     (getCardType (card_type a) = getCardType (card_type b) \<and> lc (card_name a) (card_name b) \<le> 0)"
  by (auto simp: compare_type_def Let_def)

lemma consistent_total: "consistent_comparator lc \<Longrightarrow> lc a b \<le> 0 \<or> lc b a \<le> 0"
  unfolding consistent_comparator_def by (metis linorder_not_le order_less_imp_le)

lemma consistent_trans:
  "consistent_comparator lc \<Longrightarrow> lc a b \<le> 0 \<Longrightarrow> lc b c \<le> 0 \<Longrightarrow> lc a c \<le> 0"
  unfolding consistent_comparator_def by blast

lemma consistent_sym: "consistent_comparator lc \<Longrightarrow> lc a b < 0 \<longleftrightarrow> 0 < lc b a"
  unfolding consistent_comparator_def by blast

lemma consistent_zero:
  assumes "consistent_comparator lc" and "lc a b \<le> 0" and "lc b a \<le> 0"
  shows "lc a b = 0"
proof (rule ccontr)
  assume "lc a b \<noteq> 0"
  then have "lc a b < 0" using assms(2) by simp
  then have "0 < lc b a" using consistent_sym [OF assms(1)] by blast
  then show False using assms(3) by simp
qed

lemma total_preorder_name: "consistent_comparator lc \<Longrightarrow> total_preorder (compare_name lc)"
  unfolding total_preorder_def compare_name_le
  using consistent_total consistent_trans by blast

lemma total_preorder_mana:
  assumes "consistent_comparator lc"
  shows "total_preorder (compare_mana lc)"
  unfolding total_preorder_def compare_mana_le
proof (intro conjI allI impI)
  fix a b
  show "(getManaValue a < getManaValue b \<or>
         getManaValue a = getManaValue b \<and> lc (card_name a) (card_name b) \<le> 0) \<or>
        (getManaValue b < getManaValue a \<or>
         getManaValue b = getManaValue a \<and> lc (card_name b) (card_name a) \<le> 0)"
    using consistent_total [OF assms, of "card_name a" "card_name b"]
    by (cases "getManaValue a" "getManaValue b" rule: linorder_cases) simp_all
next
  fix a b c
  assume "(getManaValue a < getManaValue b \<or>
           getManaValue a = getManaValue b \<and> lc (card_name a) (card_name b) \<le> 0) \<and>
          (getManaValue b < getManaValue c \<or>
           getManaValue b = getManaValue c \<and> lc (card_name b) (card_name c) \<le> 0)"
  then show "getManaValue a < getManaValue c \<or>
             getManaValue a = getManaValue c \<and> lc (card_name a) (card_name c) \<le> 0"
    using consistent_trans [OF assms, of "card_name a" "card_name b" "card_name c"]
    by (elim conjE disjE) simp_all
qed

lemma compare_mana_lt:
  "compare_mana lc a b < 0 \<longleftrightarrow>
     getManaValue a < getManaValue b \<or>
     (getManaValue a = getManaValue b \<and> lc (card_name a) (card_name b) < 0)"
  by (auto simp: compare_mana_def Let_def)

lemma compare_mana_gt:
  "0 < compare_mana lc a b \<longleftrightarrow>
     getManaValue b < getManaValue a \<or>
     (getManaValue a = getManaValue b \<and> 0 < lc (card_name a) (card_name b))"
  by (auto simp: compare_mana_def Let_def)

lemma compare_mana_zero:
  "compare_mana lc a b = 0 \<longleftrightarrow>
     getManaValue a = getManaValue b \<and> lc (card_name a) (card_name b) = 0"
  by (auto simp: compare_mana_def Let_def)

lemma compare_mana_sym:
  "consistent_comparator lc \<Longrightarrow> compare_mana lc a b < 0 \<longleftrightarrow> 0 < compare_mana lc b a"
  unfolding compare_mana_lt compare_mana_gt
  using consistent_sym [of lc "card_name a" "card_name b"] by auto

lemma compare_type_lt:
  "compare_type lc a b < 0 \<longleftrightarrow>
     (getCardType (card_type a) \<noteq> getCardType (card_type b) \<and>
      lc (getCardType (card_type a)) (getCardType (card_type b)) < 0) \<or>
     (getCardType (card_type a) = getCardType (card_type b) \<and>
      lc (card_name a) (card_name b) < 0)"
  by (auto simp: compare_type_def Let_def)

lemma compare_type_gt:
  "0 < compare_type lc a b \<longleftrightarrow>
     (getCardType (card_type a) \<noteq> getCardType (card_type b) \<and>
      0 < lc (getCardType (card_type a)) (getCardType (card_type b))) \<or>
     (getCardType (card_type a) = getCardType (card_type b) \<and>
      0 < lc (card_name a) (card_name b))"
  by (auto simp: compare_type_def Let_def)

lemma compare_type_zero:
  "compare_type lc a b = 0 \<longleftrightarrow>
     (getCardType (card_type a) \<noteq> getCardType (card_type b) \<and>
      lc (getCardType (card_type a)) (getCardType (card_type b)) = 0) \<or>
     (getCardType (card_type a) = getCardType (card_type b) \<and>
      lc (card_name a) (card_name b) = 0)"
  by (auto simp: compare_type_def Let_def)

lemma compare_type_sym:
  "consistent_comparator lc \<Longrightarrow> compare_type lc a b < 0 \<longleftrightarrow> 0 < compare_type lc b a"
  unfolding compare_type_lt compare_type_gt
  using consistent_sym [of lc "card_name a" "card_name b"]
    consistent_sym [of lc "getCardType (card_type a)" "getCardType (card_type b)"]
  by auto

lemma compare_type_trans:
  assumes lc: "consistent_comparator lc"
    and sep: "lc (getCardType (card_type a)) (getCardType (card_type b)) = 0 \<longrightarrow>
              getCardType (card_type a) = getCardType (card_type b)"
    and ab: "compare_type lc a b \<le> 0" and bc: "compare_type lc b c \<le> 0"
  shows "compare_type lc a c \<le> 0"
proof -
  define ta where "ta = getCardType (card_type a)"
  define tb where "tb = getCardType (card_type b)"
  define tc where "tc = getCardType (card_type c)"
  have ab': "ta \<noteq> tb \<and> lc ta tb \<le> 0 \<or> ta = tb \<and> lc (card_name a) (card_name b) \<le> 0"
    using ab unfolding compare_type_le ta_def tb_def .
  have bc': "tb \<noteq> tc \<and> lc tb tc \<le> 0 \<or> tb = tc \<and> lc (card_name b) (card_name c) \<le> 0"
    using bc unfolding compare_type_le tb_def tc_def .
  have sep': "lc ta tb = 0 \<longrightarrow> ta = tb"
    using sep unfolding ta_def tb_def .
  have "ta \<noteq> tc \<and> lc ta tc \<le> 0 \<or> ta = tc \<and> lc (card_name a) (card_name c) \<le> 0"
  proof (cases "ta = tb")
    case True
    show ?thesis
    proof (cases "tb = tc")
      case eq: True
      then show ?thesis
        using True ab' bc' consistent_trans [OF lc, of "card_name a" "card_name b" "card_name c"]
        by simp
    next
      case False
      then show ?thesis using True ab' bc' by simp
    qed
  next
    case False
    show ?thesis
    proof (cases "tb = tc")
      case True
      then show ?thesis using False ab' bc' by simp
    next
      case ne: False
      have le: "lc ta tc \<le> 0"
        using False ne ab' bc' consistent_trans [OF lc, of ta tb tc] by simp
      have "ta \<noteq> tc"
      proof
        assume "ta = tc"
        then have "lc tb ta \<le> 0" using ne bc' by simp
        moreover have "lc ta tb \<le> 0" using False ab' by simp
        ultimately have "lc ta tb = 0" using consistent_zero [OF lc] by blast
        then show False using sep' False by simp
      qed
      then show ?thesis using le by simp
    qed
  qed
  then show ?thesis
    unfolding compare_type_le ta_def tc_def .
qed

lemma codeunit_compare_eq: "codeunit_compare a b = 0 \<longleftrightarrow> a = b"
  by (induction a b rule: codeunit_compare.induct) simp_all

lemma codeunit_compare_sym: "codeunit_compare a b < 0 \<longleftrightarrow> 0 < codeunit_compare b a"
  by (induction a b rule: codeunit_compare.induct) simp_all

lemma codeunit_compare_trans:
  "codeunit_compare a b \<le> 0 \<Longrightarrow> codeunit_compare b c \<le> 0 \<Longrightarrow> codeunit_compare a c \<le> 0"
proof (induction a arbitrary: b c)
  case Nil
  then show ?case by (cases c) simp_all
next
  case (Cons x xs)
  from Cons.prems(1) obtain y ys where b: "b = y # ys"
    by (cases b) simp_all
  from Cons.prems(2) b obtain z zs where c: "c = z # zs"
    by (cases c) simp_all
  have xy: "x < y \<or> (x = y \<and> codeunit_compare xs ys \<le> 0)"
    using Cons.prems(1) unfolding b by (simp split: if_splits)
  have yz: "y < z \<or> (y = z \<and> codeunit_compare ys zs \<le> 0)"
    using Cons.prems(2) unfolding b c by (simp split: if_splits)
  show ?case
  proof (cases "x < z")
    case True
    then show ?thesis unfolding c by simp
  next
    case False
    then have "x = y" "y = z" "codeunit_compare xs ys \<le> 0" "codeunit_compare ys zs \<le> 0"
      using xy yz by auto
    then show ?thesis
      unfolding c using Cons.IH [of ys zs] by simp
  qed
qed

lemma codeunit_compare_refl: "codeunit_compare a a = 0"
  by (simp add: codeunit_compare_eq)

lemma consistent_nfd_compare: "consistent_comparator nfd_compare"
  unfolding consistent_comparator_def nfd_compare_def
  using codeunit_compare_refl codeunit_compare_sym codeunit_compare_trans by blast

lemma getSortedDecklist_frame:
  "fst (getSortedDecklist lc key dref h) = length h \<and>
   (\<forall>a < length h. snd (getSortedDecklist lc key dref h) ! a = h ! a)"
  by (auto simp: getSortedDecklist_def Let_def nth_append split: option.splits)

lemma getSortedDecklist_copy:
  "snd (getSortedDecklist lc key (Some r) h) ! length h = sort_cards lc key (h ! r)"
  by (simp add: getSortedDecklist_def Let_def)


lemma nfd_seance: "nfd_compare [83, 233, 97, 110, 99, 101] [83, 101, 769, 97, 110, 99, 101] = 0"
  by (simp add: nfd_compare_def decompose_def latin1_decompositions_def)

text \<open>
  C8, as stated: for the keys mana and type no two entries compare equal unless their
  names are equal, and the comparator is a total order. With a \<open>localeCompare\<close> that
  answers 0 for canonically equivalent names, as the standard requires, the two
  entries for Seance have different names and compare equal under both keys; and
  the comparator of the key type is not transitive on three entries whose equivalent
  types are written differently.
\<close>

theorem localeCompare_ties_distinct_names:
  "card_name ex_seance \<noteq> card_name ex_seance_decomposed \<and>
   compare_mana nfd_compare ex_seance ex_seance_decomposed = 0 \<and>
   compare_type nfd_compare ex_seance ex_seance_decomposed = 0 \<and>
   compare_type nfd_compare ex_zombie ex_myr \<le> 0 \<and>
   compare_type nfd_compare ex_myr ex_aven \<le> 0 \<and>
   \<not> compare_type nfd_compare ex_zombie ex_aven \<le> 0"
proof (intro conjI)
  show "card_name ex_seance \<noteq> card_name ex_seance_decomposed"
    by (simp add: ex_seance_def ex_seance_decomposed_def)
  show "compare_mana nfd_compare ex_seance ex_seance_decomposed = 0"
    using nfd_seance
    by (simp add: compare_mana_def getManaValue_def ex_seance_def ex_seance_decomposed_def)
  show "compare_type nfd_compare ex_seance ex_seance_decomposed = 0"
    using nfd_seance
    by (simp add: compare_type_def ex_seance_def ex_seance_decomposed_def)
  have types: "getCardType (card_type ex_zombie) = [67, 114, 233, 97, 116, 117, 114, 101]"
    "getCardType (card_type ex_myr) = [67, 114, 101, 769, 97, 116, 117, 114, 101]"
    "getCardType (card_type ex_aven) = [67, 114, 233, 97, 116, 117, 114, 101]"
    by (simp_all add: getCardType_def trim_def isWhiteSpace_def ex_zombie_def ex_myr_def
        ex_aven_def)
  have tie: "nfd_compare [67, 114, 233, 97, 116, 117, 114, 101]
      [67, 114, 101, 769, 97, 116, 117, 114, 101] = 0"
    "nfd_compare [67, 114, 101, 769, 97, 116, 117, 114, 101]
      [67, 114, 233, 97, 116, 117, 114, 101] = 0"
    by (simp_all add: nfd_compare_def decompose_def latin1_decompositions_def)
  show "compare_type nfd_compare ex_zombie ex_myr \<le> 0"
    unfolding compare_type_def Let_def types using tie by simp
  show "compare_type nfd_compare ex_myr ex_aven \<le> 0"
    unfolding compare_type_def Let_def types using tie by simp
  have "nfd_compare (card_name ex_zombie) (card_name ex_aven) = 1"
    by (simp add: nfd_compare_def decompose_def ex_zombie_def ex_aven_def)
  then show "\<not> compare_type nfd_compare ex_zombie ex_aven \<le> 0"
    unfolding compare_type_def Let_def types by simp
qed

text \<open>
  C8, amended. \<open>localeCompare\<close> is a consistent comparator. Sorting by name a list
  already sorted by name returns it as it is; every sort returns a permutation, and
  the sorts by name and by mana return it in ascending order. The comparators of the
  keys mana and type compare the key first (the mana value by size, the primary type
  by \<open>localeCompare\<close>) and, for two identical keys, the names by \<open>localeCompare\<close>.
  They are total and antisymmetric in sign; the one for mana is transitive, the one
  for type is where \<open>localeCompare\<close> does not answer 0 for two different types. Two
  entries compare equal exactly when the keys are equal and the names compare equal
  under \<open>localeCompare\<close>, or, for the key type, when two different types compare
  equal. \<open>getSortedDecklist\<close> returns a new array and leaves every array allocated
  before, the stored decklist among them, as it was.
\<close>

theorem getSortedDecklist_order:
  assumes "consistent_comparator localeCompare"
  shows
    "sort_cards localeCompare (js ''name'') (sort_cards localeCompare (js ''name'') xs) =
       sort_cards localeCompare (js ''name'') xs \<and>
     mset (sort_cards localeCompare key xs) = mset xs \<and>
     sorted_wrt (\<lambda>a b. localeCompare (card_name a) (card_name b) \<le> 0)
       (sort_cards localeCompare (js ''name'') xs) \<and>
     sorted_wrt (\<lambda>a b. getManaValue a < getManaValue b \<or>
                   getManaValue a = getManaValue b \<and>
                   localeCompare (card_name a) (card_name b) \<le> 0)
       (sort_cards localeCompare (js ''mana'') xs) \<and>
     (\<forall>a b.
        (compare_mana localeCompare a b < 0 \<longleftrightarrow>
           getManaValue a < getManaValue b \<or>
           getManaValue a = getManaValue b \<and> localeCompare (card_name a) (card_name b) < 0) \<and>
        (compare_mana localeCompare a b = 0 \<longleftrightarrow>
           getManaValue a = getManaValue b \<and> localeCompare (card_name a) (card_name b) = 0) \<and>
        (compare_mana localeCompare a b < 0 \<longleftrightarrow> 0 < compare_mana localeCompare b a) \<and>
        (compare_mana localeCompare a b \<le> 0 \<or> compare_mana localeCompare b a \<le> 0)) \<and>
     (\<forall>a b c. compare_mana localeCompare a b \<le> 0 \<and> compare_mana localeCompare b c \<le> 0 \<longrightarrow>
        compare_mana localeCompare a c \<le> 0) \<and>
     (\<forall>a b.
        (compare_type localeCompare a b < 0 \<longleftrightarrow>
           getCardType (card_type a) \<noteq> getCardType (card_type b) \<and>
           localeCompare (getCardType (card_type a)) (getCardType (card_type b)) < 0 \<or>
           getCardType (card_type a) = getCardType (card_type b) \<and>
           localeCompare (card_name a) (card_name b) < 0) \<and>
        (compare_type localeCompare a b = 0 \<longleftrightarrow>
           getCardType (card_type a) \<noteq> getCardType (card_type b) \<and>
           localeCompare (getCardType (card_type a)) (getCardType (card_type b)) = 0 \<or>
           getCardType (card_type a) = getCardType (card_type b) \<and>
           localeCompare (card_name a) (card_name b) = 0) \<and>
        (compare_type localeCompare a b < 0 \<longleftrightarrow> 0 < compare_type localeCompare b a) \<and>
        (compare_type localeCompare a b \<le> 0 \<or> compare_type localeCompare b a \<le> 0)) \<and>
     (\<forall>a b c.
        (localeCompare (getCardType (card_type a)) (getCardType (card_type b)) = 0 \<longrightarrow>
           getCardType (card_type a) = getCardType (card_type b)) \<and>
        compare_type localeCompare a b \<le> 0 \<and> compare_type localeCompare b c \<le> 0 \<longrightarrow>
        compare_type localeCompare a c \<le> 0) \<and>
     fst (getSortedDecklist localeCompare key deck_decklist h) = length h \<and>
     (\<forall>a < length h. snd (getSortedDecklist localeCompare key deck_decklist h) ! a = h ! a) \<and>
     snd (getSortedDecklist localeCompare key (Some r) h) ! length h =
       sort_cards localeCompare key (h ! r)"
proof (intro conjI allI impI)
  show "sort_cards localeCompare (js ''name'') (sort_cards localeCompare (js ''name'') xs) =
           sort_cards localeCompare (js ''name'') xs"
    using Array_sort_idem [OF total_preorder_name [OF assms]] by (simp add: sort_cards_def)
  show "mset (sort_cards localeCompare key xs) = mset xs"
    by (rule mset_sort_cards)
  have "sorted_wrt (\<lambda>a b. compare_name localeCompare a b \<le> 0)
      (Array_sort (compare_name localeCompare) xs)"
    by (rule Array_sort_sorted [OF total_preorder_name [OF assms]])
  then show "sorted_wrt (\<lambda>a b. localeCompare (card_name a) (card_name b) \<le> 0)
       (sort_cards localeCompare (js ''name'') xs)"
    unfolding compare_name_le by (simp add: sort_cards_def)
  have "sorted_wrt (\<lambda>a b. compare_mana localeCompare a b \<le> 0)
      (Array_sort (compare_mana localeCompare) xs)"
    by (rule Array_sort_sorted [OF total_preorder_mana [OF assms]])
  then show "sorted_wrt (\<lambda>a b. getManaValue a < getManaValue b \<or>
                   getManaValue a = getManaValue b \<and>
                   localeCompare (card_name a) (card_name b) \<le> 0)
       (sort_cards localeCompare (js ''mana'') xs)"
    unfolding compare_mana_le by (simp add: sort_cards_def)
next
  fix a b
  show "compare_mana localeCompare a b < 0 \<longleftrightarrow>
           getManaValue a < getManaValue b \<or>
           getManaValue a = getManaValue b \<and> localeCompare (card_name a) (card_name b) < 0"
    by (rule compare_mana_lt)
  show "compare_mana localeCompare a b = 0 \<longleftrightarrow>
           getManaValue a = getManaValue b \<and> localeCompare (card_name a) (card_name b) = 0"
    by (rule compare_mana_zero)
  show "compare_mana localeCompare a b < 0 \<longleftrightarrow> 0 < compare_mana localeCompare b a"
    by (rule compare_mana_sym [OF assms])
  show "compare_mana localeCompare a b \<le> 0 \<or> compare_mana localeCompare b a \<le> 0"
    using total_preorder_mana [OF assms] unfolding total_preorder_def by blast
  show "compare_type localeCompare a b < 0 \<longleftrightarrow>
           getCardType (card_type a) \<noteq> getCardType (card_type b) \<and>
           localeCompare (getCardType (card_type a)) (getCardType (card_type b)) < 0 \<or>
           getCardType (card_type a) = getCardType (card_type b) \<and>
           localeCompare (card_name a) (card_name b) < 0"
    by (rule compare_type_lt)
  show "compare_type localeCompare a b = 0 \<longleftrightarrow>
           getCardType (card_type a) \<noteq> getCardType (card_type b) \<and>
           localeCompare (getCardType (card_type a)) (getCardType (card_type b)) = 0 \<or>
           getCardType (card_type a) = getCardType (card_type b) \<and>
           localeCompare (card_name a) (card_name b) = 0"
    by (rule compare_type_zero)
  show sym: "compare_type localeCompare a b < 0 \<longleftrightarrow> 0 < compare_type localeCompare b a"
    by (rule compare_type_sym [OF assms])
  show "compare_type localeCompare a b \<le> 0 \<or> compare_type localeCompare b a \<le> 0"
    using compare_type_sym [OF assms, of b a] by linarith
next
  fix a b c
  assume "compare_mana localeCompare a b \<le> 0 \<and> compare_mana localeCompare b c \<le> 0"
  then show "compare_mana localeCompare a c \<le> 0"
    using total_preorder_mana [OF assms] unfolding total_preorder_def by blast
next
  fix a b c
  assume "(localeCompare (getCardType (card_type a)) (getCardType (card_type b)) = 0 \<longrightarrow>
           getCardType (card_type a) = getCardType (card_type b)) \<and>
        compare_type localeCompare a b \<le> 0 \<and> compare_type localeCompare b c \<le> 0"
  then show "compare_type localeCompare a c \<le> 0"
    using compare_type_trans [OF assms, of a b c] by blast
next
  show "fst (getSortedDecklist localeCompare key deck_decklist h) = length h"
    using getSortedDecklist_frame by blast
next
  fix a
  assume "a < length h"
  then show "snd (getSortedDecklist localeCompare key deck_decklist h) ! a = h ! a"
    using getSortedDecklist_frame by blast
next
  show "snd (getSortedDecklist localeCompare key (Some r) h) ! length h =
           sort_cards localeCompare key (h ! r)"
    by (rule getSortedDecklist_copy)
qed


lemma sort_cards_example:
  "sort_cards nfd_compare (js ''name'') ex_cards = [ex_cards ! 1, ex_cards ! 2, ex_cards ! 0]"
  by (simp add: sort_cards_def compare_name_def ex_cards_def nfd_compare_def decompose_def)

lemma compare_mana_example:
  "compare_mana nfd_compare (ex_cards ! 2) (ex_cards ! 0) \<le> 0"
  "compare_mana nfd_compare (ex_cards ! 0) (ex_cards ! 1) \<le> 0"
  by (simp_all add: compare_mana_def getManaValue_def ex_cards_def)

theorem getSortedDecklist_order_witness:
  "consistent_comparator nfd_compare \<and>
   sort_cards nfd_compare (js ''name'') ex_cards = [ex_cards ! 1, ex_cards ! 2, ex_cards ! 0] \<and>
   sort_cards nfd_compare (js ''name'') [ex_cards ! 1, ex_cards ! 2, ex_cards ! 0] =
     [ex_cards ! 1, ex_cards ! 2, ex_cards ! 0] \<and>
   compare_mana nfd_compare (ex_cards ! 2) (ex_cards ! 0) \<le> 0 \<and>
   compare_mana nfd_compare (ex_cards ! 0) (ex_cards ! 1) \<le> 0 \<and>
   compare_mana nfd_compare (ex_cards ! 2) (ex_cards ! 1) \<le> 0 \<and>
   fst (getSortedDecklist nfd_compare (js ''name'') (Some 0) [ex_cards]) = 1 \<and>
   snd (getSortedDecklist nfd_compare (js ''name'') (Some 0) [ex_cards]) ! 0 = ex_cards \<and>
   snd (getSortedDecklist nfd_compare (js ''name'') (Some 0) [ex_cards]) ! 1 =
     [ex_cards ! 1, ex_cards ! 2, ex_cards ! 0]"
proof -
  define key where "key = js ''name''"
  define srt where "srt = [ex_cards ! 1, ex_cards ! 2, ex_cards ! 0]"
  note order = getSortedDecklist_order [OF consistent_nfd_compare,
      of ex_cards key "Some 0" "[ex_cards]" 0, folded key_def]
  have s: "sort_cards nfd_compare key ex_cards = srt"
    unfolding key_def srt_def by (rule sort_cards_example)
  have i: "sort_cards nfd_compare key srt = srt"
    using order s by simp
  have m: "compare_mana nfd_compare (ex_cards ! 2) (ex_cards ! 1) \<le> 0"
    using order compare_mana_example by blast
  have f: "fst (getSortedDecklist nfd_compare key (Some 0) [ex_cards]) = 1"
    using order by simp
  have u: "snd (getSortedDecklist nfd_compare key (Some 0) [ex_cards]) ! 0 = ex_cards"
    using order by simp
  have c: "snd (getSortedDecklist nfd_compare key (Some 0) [ex_cards]) ! 1 = srt"
    using order s by simp
  show ?thesis
    using consistent_nfd_compare s i m compare_mana_example f u c unfolding key_def srt_def
    by blast
qed

section \<open>Loading the persisted collection\<close>

lemma JSON_parse_truncated: "JSON_parse (js ''[{'') = Inl SyntaxError"
  by (simp add: JSON_parse_def idle_step_def isJSONWhiteSpace_def isWordChar_def isDigit_def)

lemma JSON_parse_empty_array: "JSON_parse (js ''[]'') = Inr (JArray [])"
  by (simp add: JSON_parse_def idle_step_def isJSONWhiteSpace_def isWordChar_def isDigit_def)

lemma JSON_parse_error: "JSON_parse s = Inl e \<Longrightarrow> e = SyntaxError"
  by (auto simp: JSON_parse_def split: option.splits list.splits expect.splits prod.splits)

text \<open>
  C3, as stated: loading never raises, and a malformed persisted text is treated as an
  empty collection. It is not: the text \<open>[{\<close> is not JSON, \<open>JSON.parse\<close> throws, and
  nothing around the call catches the SyntaxError.
\<close>

theorem DeckList_load_malformed_raises:
  "DeckList_load (Some (js ''[{'')) = Inl SyntaxError"
  using JSON_parse_truncated by (simp add: DeckList_load_def)

text \<open>
  C3, amended: without a persisted text (or with an empty one) the list view loads the
  empty collection and the detail view loads no deck, and neither raises. A text that
  is present goes to \<open>JSON.parse\<close> unguarded: if it is JSON, the list view holds the
  parsed value and the detail view searches the parsed array; if it is not, both
  views raise the SyntaxError of \<open>JSON.parse\<close>.
\<close>

theorem load_absent_or_parsed:
  "DeckList_load None = Inr (JArray []) \<and> DeckList_load (Some []) = Inr (JArray []) \<and>
   DeckDetail_load url_id None = Inr None \<and> DeckDetail_load url_id (Some []) = Inr None \<and>
   (s \<noteq> [] \<longrightarrow> DeckList_load (Some s) = JSON_parse s) \<and>
   (s \<noteq> [] \<and> JSON_parse s = Inr (JArray ds) \<longrightarrow>
      DeckDetail_load url_id (Some s) = find_deck url_id ds) \<and>
   (s \<noteq> [] \<and> JSON_parse s = Inl e \<longrightarrow>
      e = SyntaxError \<and> DeckList_load (Some s) = Inl SyntaxError \<and>
      DeckDetail_load url_id (Some s) = Inl SyntaxError)"
  using JSON_parse_error [of s e] by (auto simp: DeckList_load_def DeckDetail_load_def)

theorem load_absent_or_parsed_witness:
  "js ''[{'' \<noteq> [] \<and> JSON_parse (js ''[{'') = Inl SyntaxError \<and>
   DeckDetail_load (js ''1700000000000'') (Some (js ''[{'')) = Inl SyntaxError \<and>
   js ''[]'' \<noteq> [] \<and> JSON_parse (js ''[]'') = Inr (JArray []) \<and>
   DeckList_load (Some (js ''[]'')) = Inr (JArray []) \<and>
   DeckDetail_load (js ''1700000000000'') (Some (js ''[]'')) = Inr None"
proof -
  have ne: "js ''[{'' \<noteq> []" "js ''[]'' \<noteq> []"
    by simp_all
  have bad: "DeckDetail_load (js ''1700000000000'') (Some (js ''[{'')) = Inl SyntaxError"
    using load_absent_or_parsed [of "js ''1700000000000''" "js ''[{''" _ SyntaxError]
      ne(1) JSON_parse_truncated by blast
  have good: "DeckList_load (Some (js ''[]'')) = Inr (JArray [])"
    "DeckDetail_load (js ''1700000000000'') (Some (js ''[]'')) = Inr None"
    using load_absent_or_parsed [of "js ''1700000000000''" "js ''[]''" "[]"]
      ne(2) JSON_parse_empty_array by simp_all
  show ?thesis
    using ne bad good JSON_parse_truncated JSON_parse_empty_array by blast
qed

end
